theory Spec2Isabelle
  imports Complex_Main
begin

section \<open>The auction ledger (db.py)\<close>

text \<open>
  The \<open>auctions\<close> table of db.py. The \<open>status\<close> column is TEXT, but the only values
  the program ever writes are \<open>'active'\<close> (both INSERT statements) and \<open>'completed'\<close>
  (\<open>complete_auction\<close>), so it is an enumeration here. The columns
  \<open>current_bidder_id\<close> and \<open>current_bidder_name\<close> are the two nullable ones.
\<close>

datatype status = Active | Completed

record auction =
  thread_id :: int
  channel_id :: int
  guild_id :: int
  player_name :: string
  current_bid :: int
  current_bidder_id :: "int option"
  current_bidder_name :: "string option"
  created_at :: int
  last_bid_at :: int
  status :: status

text \<open>
  The table is the list of its rows. SQL fixes no order for a SELECT without ORDER BY,
  and no property below depends on one; a new row is put at the end. That no two rows
  share a \<open>thread_id\<close> is not built into the type: it is the PRIMARY KEY check of
  \<open>insert_row\<close>, and \<open>unique_threads\<close> is proved to be kept by every operation.
\<close>

type_synonym ledger = "auction list"

definition unique_threads :: "ledger \<Rightarrow> bool" where
  "unique_threads ledger = distinct (map thread_id ledger)"

text \<open>
  \<open>SELECT ... FROM auctions WHERE thread_id = ?\<close> followed by \<open>fetchone()\<close>. The query
  has no condition on \<open>status\<close> (db.py lines 131-144): a completed row is returned too.
\<close>

definition get_auction_by_thread :: "ledger \<Rightarrow> int \<Rightarrow> auction option" where
  "get_auction_by_thread ledger tid = find (\<lambda>r. thread_id r = tid) ledger"

text \<open>
  \<open>INSERT INTO auctions ... VALUES (..., 'active')\<close>: \<open>None\<close> is the
  \<open>aiosqlite.IntegrityError\<close> raised by the PRIMARY KEY constraint on \<open>thread_id\<close>.
\<close>

definition insert_row :: "ledger \<Rightarrow> auction \<Rightarrow> ledger option" where
  "insert_row ledger row =
     (if list_ex (\<lambda>r. thread_id r = thread_id row) ledger then None
      else Some (ledger @ [row]))"

text \<open>
  \<open>create_auction\<close> (db.py lines 59-86); \<open>now\<close> is \<open>int(time.time())\<close>. The result
  pairs the returned dict (or \<open>None\<close>) with the table after the call.
\<close>

definition create_auction ::
  "ledger \<Rightarrow> int \<Rightarrow> int \<Rightarrow> int \<Rightarrow> int \<Rightarrow> string \<Rightarrow> int \<Rightarrow> int \<Rightarrow> string
     \<Rightarrow> auction option \<times> ledger" where
  "create_auction ledger now tid cid gid pname bid bidder_id bidder_name =
     (case insert_row ledger
        \<lparr>thread_id = tid, channel_id = cid, guild_id = gid, player_name = pname,
         current_bid = bid, current_bidder_id = Some bidder_id,
         current_bidder_name = Some bidder_name,
         created_at = now, last_bid_at = now, status = Active\<rparr> of
        None \<Rightarrow> (None, ledger)
      | Some ledger' \<Rightarrow> (get_auction_by_thread ledger' tid, ledger'))"

text \<open>
  \<open>register_existing_auction\<close> (db.py lines 89-124): the same INSERT with the
  caller's timestamps; \<open>current_bidder_id\<close> may be \<open>None\<close>.
\<close>

definition register_existing_auction ::
  "ledger \<Rightarrow> int \<Rightarrow> int \<Rightarrow> int \<Rightarrow> string \<Rightarrow> int \<Rightarrow> int option \<Rightarrow> string \<Rightarrow> int \<Rightarrow> int
     \<Rightarrow> auction option \<times> ledger" where
  "register_existing_auction ledger tid cid gid pname bid bidder_id bidder_name created last_bid =
     (case insert_row ledger
        \<lparr>thread_id = tid, channel_id = cid, guild_id = gid, player_name = pname,
         current_bid = bid, current_bidder_id = bidder_id,
         current_bidder_name = Some bidder_name,
         created_at = created, last_bid_at = last_bid, status = Active\<rparr> of
        None \<Rightarrow> (None, ledger)
      | Some ledger' \<Rightarrow> (get_auction_by_thread ledger' tid, ledger'))"

text \<open>
  The UPDATE statement of \<open>place_bid\<close> (db.py lines 165-172). Its WHERE clause is
  \<open>thread_id = ? AND status = 'active'\<close>; the amount does not occur in it.
\<close>

definition place_bid_update :: "ledger \<Rightarrow> int \<Rightarrow> int \<Rightarrow> int \<Rightarrow> string \<Rightarrow> int \<Rightarrow> ledger" where
  "place_bid_update ledger tid amount bidder_id bidder_name now =
     map (\<lambda>r. if thread_id r = tid \<and> status r = Active
              then r\<lparr>current_bid := amount, current_bidder_id := Some bidder_id,
                     current_bidder_name := Some bidder_name, last_bid_at := now\<rparr>
              else r) ledger"

text \<open>
  The read at the start of \<open>place_bid\<close> and its two early returns (db.py lines
  158-162): whether the call goes on to the UPDATE.
\<close>

definition place_bid_check :: "ledger \<Rightarrow> int \<Rightarrow> int \<Rightarrow> bool" where
  "place_bid_check ledger tid amount =
     (case get_auction_by_thread ledger tid of
        None \<Rightarrow> False
      | Some a \<Rightarrow> \<not> amount \<le> current_bid a)"

text \<open>\<open>place_bid\<close> (db.py lines 147-174), run without interruption.\<close>

definition place_bid ::
  "ledger \<Rightarrow> int \<Rightarrow> int \<Rightarrow> int \<Rightarrow> int \<Rightarrow> string \<Rightarrow> auction option \<times> ledger" where
  "place_bid ledger now tid amount bidder_id bidder_name =
     (case get_auction_by_thread ledger tid of
        None \<Rightarrow> (None, ledger)
      | Some a \<Rightarrow>
          if amount \<le> current_bid a then (None, ledger)
          else (let ledger' = place_bid_update ledger tid amount bidder_id bidder_name now
                in (get_auction_by_thread ledger' tid, ledger')))"

text \<open>
  \<open>get_committed_pom_for_user\<close> (db.py lines 177-188):
  \<open>COALESCE(SUM(current_bid), 0)\<close> over the active rows the user leads.
\<close>

definition get_committed_pom_for_user :: "ledger \<Rightarrow> int \<Rightarrow> int" where
  "get_committed_pom_for_user ledger uid =
     sum_list (map current_bid
       (filter (\<lambda>r. status r = Active \<and> current_bidder_id r = Some uid) ledger))"

text \<open>\<open>get_active_auctions_for_reminders\<close> (db.py lines 191-205).\<close>

definition get_active_auctions_for_reminders :: "ledger \<Rightarrow> auction list" where
  "get_active_auctions_for_reminders ledger = filter (\<lambda>r. status r = Active) ledger"

text \<open>
  \<open>complete_auction\<close> (db.py lines 297-318): the UPDATE guarded by
  \<open>status = 'active'\<close>, then a SELECT by \<open>thread_id\<close> alone.
\<close>

definition complete_update :: "ledger \<Rightarrow> int \<Rightarrow> ledger" where
  "complete_update ledger tid =
     map (\<lambda>r. if thread_id r = tid \<and> status r = Active then r\<lparr>status := Completed\<rparr> else r)
       ledger"

definition complete_auction :: "ledger \<Rightarrow> int \<Rightarrow> auction option \<times> ledger" where
  "complete_auction ledger tid =
     (let ledger' = complete_update ledger tid
      in (find (\<lambda>r. thread_id r = tid) ledger', ledger'))"

subsection \<open>Sequences of ledger operations\<close>

datatype ledger_op =
    Create int int int int string int int string
  | Register int int int string int "int option" string int int
  | PlaceBid int int int int string
  | Complete int

fun apply_op :: "ledger \<Rightarrow> ledger_op \<Rightarrow> ledger" where
  "apply_op l (Create now tid cid gid pname bid bidder_id bidder_name) =
     snd (create_auction l now tid cid gid pname bid bidder_id bidder_name)"
| "apply_op l (Register tid cid gid pname bid bidder_id bidder_name created last_bid) =
     snd (register_existing_auction l tid cid gid pname bid bidder_id bidder_name created last_bid)"
| "apply_op l (PlaceBid now tid amount bidder_id bidder_name) =
     snd (place_bid l now tid amount bidder_id bidder_name)"
| "apply_op l (Complete tid) = snd (complete_auction l tid)"

definition run_ops :: "ledger \<Rightarrow> ledger_op list \<Rightarrow> ledger" where
  "run_ops l ops = foldl apply_op l ops"

subsection \<open>\<open>place_bid\<close> as the event loop runs it\<close>

text \<open>
  \<open>place_bid\<close> is a coroutine: it awaits the first read
  (\<open>get_auction_by_thread\<close>), then the UPDATE and its commit, then the final read,
  each on a connection of its own, and other tasks of the cooperative loop run between
  these suspension points. \<open>bid_step\<close> is one such uninterrupted stretch of a call.
  \<open>now = int(time.time())\<close> is taken after the two early returns and before the
  UPDATE is awaited, so the write carries the clock of the read.
\<close>

record bid_call =
  bc_thread :: int
  bc_amount :: int
  bc_bidder_id :: int
  bc_bidder_name :: string

datatype bid_phase = AtRead | AtWrite int | AtReturn | Finished "auction option"

fun bid_step :: "int \<Rightarrow> bid_call \<Rightarrow> bid_phase \<times> ledger \<Rightarrow> bid_phase \<times> ledger" where
  "bid_step clock c (AtRead, l) =
     (if place_bid_check l (bc_thread c) (bc_amount c) then (AtWrite clock, l)
      else (Finished None, l))"
| "bid_step clock c (AtWrite now, l) =
     (AtReturn,
      place_bid_update l (bc_thread c) (bc_amount c) (bc_bidder_id c) (bc_bidder_name c) now)"
| "bid_step clock c (AtReturn, l) = (Finished (get_auction_by_thread l (bc_thread c)), l)"
| "bid_step clock c (Finished r, l) = (Finished r, l)"

text \<open>
  Two \<open>place_bid\<close> calls in flight. A schedule entry says which call runs its next
  stretch (\<open>False\<close> the first, \<open>True\<close> the second) and what the clock reads then.
\<close>

fun run_two ::
  "bid_call \<Rightarrow> bid_call \<Rightarrow> (bool \<times> int) list \<Rightarrow> bid_phase \<times> bid_phase \<times> ledger
     \<Rightarrow> bid_phase \<times> bid_phase \<times> ledger" where
  "run_two c1 c2 [] s = s"
| "run_two c1 c2 ((second, clock) # sched) (p1, p2, l) =
     (if second
      then (case bid_step clock c2 (p2, l) of (p2', l') \<Rightarrow> run_two c1 c2 sched (p1, p2', l'))
      else (case bid_step clock c1 (p1, l) of (p1', l') \<Rightarrow> run_two c1 c2 sched (p1', p2, l')))"

subsection \<open>Accepted bids of a run\<close>

text \<open>
  The bids of a run that \<open>place_bid\<close> accepted on thread \<open>t\<close>: the \<open>PlaceBid\<close>
  operations on \<open>t\<close> whose call returned a row, the result that \<open>bid_command\<close>
  takes for a placed bid (\<open>if updated is None\<close>, cogs/auction.py line 463), as
  (amount, bidder) in order.
\<close>

fun accepted_bids :: "ledger \<Rightarrow> ledger_op list \<Rightarrow> int \<Rightarrow> (int \<times> int) list" where
  "accepted_bids l [] t = []"
| "accepted_bids l (PlaceBid now tid amount bidder_id bidder_name # ops) t =
     (if tid = t \<and> fst (place_bid l now tid amount bidder_id bidder_name) \<noteq> None
      then [(amount, bidder_id)] else [])
     @ accepted_bids (apply_op l (PlaceBid now tid amount bidder_id bidder_name)) ops t"
| "accepted_bids l (x # ops) t = accepted_bids (apply_op l x) ops t"

section \<open>The balance sheet (sheets.py)\<close>

text \<open>
  A row of the "POM Balance" worksheet as the code reads it. \<open>pr_id\<close> is the
  Discord id that the stripped text of the ID cell spells (\<open>None\<close> when it spells
  none, so that the comparison with \<open>str(discord_user_id)\<close> fails for every user);
  \<open>pr_balance\<close> is what \<open>int(...)\<close> makes of the POM Balance cell, \<open>None\<close> when
  it raises \<open>TypeError\<close> or \<open>ValueError\<close>, which the code turns into 0.
\<close>

record pom_row =
  pr_id :: "int option"
  pr_balance :: "int option"

type_synonym sheet = "pom_row list"

definition cell_balance :: "pom_row \<Rightarrow> int" where
  "cell_balance r = (case pr_balance r of Some v \<Rightarrow> v | None \<Rightarrow> 0)"

text \<open>\<open>get_pom_balance_sync\<close> (sheets.py lines 40-62): the first row of the user.\<close>

definition get_pom_balance_sync :: "sheet \<Rightarrow> int \<Rightarrow> int option" where
  "get_pom_balance_sync rows uid =
     map_option cell_balance (find (\<lambda>r. pr_id r = Some uid) rows)"

text \<open>
  \<open>deduct_pom_sync\<close> (sheets.py lines 94-127): the loop over the rows stops at the
  first row of the user, and either refuses (balance below the amount) or writes the
  new balance into that row. The result pairs the returned bool with the sheet after.
\<close>

fun deduct_pom_sync :: "sheet \<Rightarrow> int \<Rightarrow> int \<Rightarrow> bool \<times> sheet" where
  "deduct_pom_sync [] uid amount = (False, [])"
| "deduct_pom_sync (r # rows) uid amount =
     (if pr_id r \<noteq> Some uid
      then (case deduct_pom_sync rows uid amount of (ok, rows') \<Rightarrow> (ok, r # rows'))
      else if cell_balance r < amount then (False, r # rows)
      else (True, r\<lparr>pr_balance := Some (cell_balance r - amount)\<rparr> # rows))"

section \<open>Calls that can fail\<close>

text \<open>
  The outcome of an awaited call on the chat platform or on the sheet: it returns, or
  it raises \<open>discord.HTTPException\<close>, or it raises some other \<open>Exception\<close>. The
  handlers of the code tell the last two apart: \<open>except discord.HTTPException\<close>
  catches the first only, \<open>except Exception\<close> both.
\<close>

datatype 'a io = Returns 'a | RaisesHTTP | RaisesOther

text \<open>What \<open>isinstance(thread, discord.Thread)\<close> can tell about a channel object.\<close>

datatype chan = ThreadChan | OtherChan

text \<open>
  \<open>bot.get_channel(id)\<close>, and \<open>await bot.fetch_channel(id)\<close> when the cache has
  nothing (bot.py lines 60-65, 123-128, 151-156).
\<close>

definition resolve_channel :: "chan option \<Rightarrow> chan io \<Rightarrow> chan io" where
  "resolve_channel cached fetched = (case cached of Some c \<Rightarrow> Returns c | None \<Rightarrow> fetched)"

section \<open>The bid command (cogs/auction.py)\<close>

text \<open>
  What \<open>bid_command\<close> reads from the interaction: \<open>interaction.guild\<close> (its id, or
  \<open>None\<close>), \<open>interaction.channel\<close> (its id, or \<open>None\<close>), the user's id and display
  name.
\<close>

record interaction =
  ia_guild :: "int option"
  ia_channel :: "int option"
  ia_user :: int
  ia_display_name :: string

text \<open>The message the command answers with; \<open>NewHighBid\<close> is the accepted bid.\<close>

datatype bid_response =
    NotInServer
  | NotAnAuction
  | AuctionCompleted
  | WrongChannel
  | BidTooLow
  | OwnBid
  | NotInSheet
  | OverBudget int int int
  | BalanceCheckFailed
  | CouldNotUpdate
  | NewHighBid auction

fun accepted :: "bid_response \<Rightarrow> bool" where
  "accepted (NewHighBid u) = True"
| "accepted _ = False"

text \<open>
  \<open>bid_command\<close> (cogs/auction.py lines 393-476), run without interruption.
  \<open>acid\<close> is \<open>AUCTION_CHANNEL_ID = os.getenv(...)\<close>, a \<open>str\<close> or \<open>None\<close>; the
  row's \<open>channel_id\<close> is an \<open>int\<close>, and in Python an \<open>int\<close> never equals a \<open>str\<close>, so
  the test \<open>auction["channel_id"] != AUCTION_CHANNEL_ID\<close> is true whenever the
  variable is set. \<open>orc\<close> is the sheet as \<open>get_pom_balance\<close> reads it at this
  moment, \<open>None\<close> when the read raises (the \<open>except Exception\<close> of lines 449-455).
  \<open>OverBudget\<close> carries available, balance and committed, as the message does.
\<close>

definition bid_command ::
  "string option \<Rightarrow> int \<Rightarrow> sheet option \<Rightarrow> ledger \<Rightarrow> interaction \<Rightarrow> int
     \<Rightarrow> bid_response \<times> ledger" where
  "bid_command acid now orc l ia amount =
     (case (ia_guild ia, ia_channel ia) of
        (Some g, Some tid) \<Rightarrow>
          (case get_auction_by_thread l tid of
             None \<Rightarrow> (NotAnAuction, l)
           | Some auction \<Rightarrow>
               if status auction = Completed then (AuctionCompleted, l)
               else if acid \<noteq> None then (WrongChannel, l)
               else if amount \<le> current_bid auction then (BidTooLow, l)
               else if current_bidder_id auction = Some (ia_user ia) then (OwnBid, l)
               else
                 (case orc of
                    None \<Rightarrow> (BalanceCheckFailed, l)
                  | Some rows \<Rightarrow>
                      (case get_pom_balance_sync rows (ia_user ia) of
                         None \<Rightarrow> (NotInSheet, l)
                       | Some balance \<Rightarrow>
                           (let committed = get_committed_pom_for_user l (ia_user ia);
                                available = balance - committed
                            in if amount > available
                               then (OverBudget available balance committed, l)
                               else
                                 (case place_bid l now tid amount (ia_user ia)
                                         (ia_display_name ia) of
                                    (None, l') \<Rightarrow> (CouldNotUpdate, l')
                                  | (Some updated, l') \<Rightarrow> (NewHighBid updated, l'))))))
      | _ \<Rightarrow> (NotInServer, l))"

section \<open>Expiry (cogs/auction.py, bot.py)\<close>

definition BID_EXPIRY_HOURS :: int where
  "BID_EXPIRY_HOURS = 24"

text \<open>
  \<open>_seconds_until_expiry\<close> (cogs/auction.py lines 164-168); \<open>now\<close> is the
  \<open>int(time.time())\<close> the function reads.
\<close>

definition seconds_until_expiry :: "int \<Rightarrow> int \<Rightarrow> int" where
  "seconds_until_expiry now last_bid_at_epoch =
     max 0 (last_bid_at_epoch + BID_EXPIRY_HOURS * 3600 - now)"

section \<open>Settlement of an expired auction (bot.py)\<close>

text \<open>
  What the outside does during the settlement of one auction: the clock, and the
  outcome of every awaited call of lines 116-197, in the order of the code.
\<close>

record completion_env =
  ce_clock :: int
  ce_thread_cached :: "chan option"
  ce_thread_fetch :: "chan io"
  ce_thread_send :: "unit io"
  ce_thread_edit :: "unit io"
  ce_channel_cached :: "chan option"
  ce_channel_fetch :: "chan io"
  ce_channel_send :: "unit io"
  ce_append :: "unit io"
  ce_deduct :: "unit io"
  ce_warn_send :: "unit io"
  ce_pinned :: "unit io"

text \<open>
  The calls a settlement makes, recorded when the call is made, whatever its outcome:
  the announcement in the thread, the lock of the thread, the announcement in the
  parent channel, \<open>append_completed_auction\<close>, \<open>deduct_pom\<close> (user, amount), the
  warning about a refused deduction, \<open>_update_pinned_auctions_list\<close>.
\<close>

datatype call =
    ThreadSend
  | ThreadEdit
  | ChannelSend
  | AppendHistory
  | DeductPom int int
  | WarnSend
  | PinnedUpdate

text \<open>
  The block of lines 166-189, one \<open>try\<close> with one \<open>except Exception\<close> around both
  the append and the deduction: an exception of the append leaves the block before
  \<open>deduct_pom\<close> is called. \<open>if current_bidder_id:\<close> is false for \<open>None\<close> and for 0.
  The warning has a handler of its own for \<open>discord.HTTPException\<close>; anything else
  it raises is caught by the block's handler. Nothing escapes the block.
\<close>

definition settle_sheets :: "completion_env \<Rightarrow> auction \<Rightarrow> sheet \<Rightarrow> call list \<times> sheet" where
  "settle_sheets env a rows =
     (case ce_append env of
        Returns u \<Rightarrow>
          (case current_bidder_id a of
             None \<Rightarrow> ([AppendHistory], rows)
           | Some uid \<Rightarrow>
               if uid = 0 then ([AppendHistory], rows)
               else
                 (case ce_deduct env of
                    Returns v \<Rightarrow>
                      (case deduct_pom_sync rows uid (current_bid a) of
                         (True, rows') \<Rightarrow>
                           ([AppendHistory, DeductPom uid (current_bid a)], rows')
                       | (False, rows') \<Rightarrow>
                           ([AppendHistory, DeductPom uid (current_bid a), WarnSend], rows'))
                  | _ \<Rightarrow> ([AppendHistory, DeductPom uid (current_bid a)], rows)))
      | _ \<Rightarrow> ([AppendHistory], rows))"

text \<open>
  Lines 122-197 for the row \<open>a\<close> of the sweep's list. The bool says that an
  exception left the loop body: it reaches the \<open>except Exception\<close> around the whole
  sweep (line 198), which ends this sweep. \<open>continue\<close> ends the settlement of this
  auction only. The handlers around the three announcements catch
  \<open>discord.HTTPException\<close> only; the one around the pinned list catches everything.
\<close>

definition settle :: "completion_env \<Rightarrow> auction \<Rightarrow> sheet \<Rightarrow> call list \<times> sheet \<times> bool" where
  "settle env a rows =
     (case resolve_channel (ce_thread_cached env) (ce_thread_fetch env) of
        RaisesHTTP \<Rightarrow> ([], rows, False)
      | RaisesOther \<Rightarrow> ([], rows, True)
      | Returns OtherChan \<Rightarrow> ([], rows, False)
      | Returns ThreadChan \<Rightarrow>
          if ce_thread_send env = RaisesOther then ([ThreadSend], rows, True)
          else if ce_thread_edit env = RaisesOther then ([ThreadSend, ThreadEdit], rows, True)
          else
            (case resolve_channel (ce_channel_cached env) (ce_channel_fetch env) of
               RaisesHTTP \<Rightarrow> ([ThreadSend, ThreadEdit], rows, False)
             | RaisesOther \<Rightarrow> ([ThreadSend, ThreadEdit], rows, True)
             | Returns ch \<Rightarrow>
                 if ce_channel_send env = RaisesOther
                 then ([ThreadSend, ThreadEdit, ChannelSend], rows, True)
                 else
                   (case settle_sheets env a rows of
                      (calls, rows') \<Rightarrow>
                        ([ThreadSend, ThreadEdit, ChannelSend] @ calls @ [PinnedUpdate],
                         rows', False))))"

text \<open>
  The settlement gets as far as the block of the sheet: the thread and the parent
  channel are found, and none of the three announcements raises anything but
  \<open>discord.HTTPException\<close>.
\<close>

definition reaches_sheets :: "completion_env \<Rightarrow> bool" where
  "reaches_sheets env \<longleftrightarrow>
     resolve_channel (ce_thread_cached env) (ce_thread_fetch env) = Returns ThreadChan \<and>
     ce_thread_send env \<noteq> RaisesOther \<and> ce_thread_edit env \<noteq> RaisesOther \<and>
     (\<exists>ch. resolve_channel (ce_channel_cached env) (ce_channel_fetch env) = Returns ch) \<and>
     ce_channel_send env \<noteq> RaisesOther"

text \<open>
  The body of the loop of \<open>_check_auction_completions\<close> for one row \<open>a\<close> of the
  list read at the start of the sweep (lines 105-197). The settlement uses the fields
  of \<open>a\<close>, not of the row \<open>complete_auction\<close> returns.
\<close>

definition complete_one ::
  "completion_env \<Rightarrow> auction \<Rightarrow> ledger \<times> sheet \<Rightarrow> call list \<times> (ledger \<times> sheet) \<times> bool" where
  "complete_one env a st =
     (case st of (l, rows) \<Rightarrow>
        if seconds_until_expiry (ce_clock env) (last_bid_at a) \<le> 0
        then (case complete_auction l (thread_id a) of
                (None, l') \<Rightarrow> ([], (l', rows), False)
              | (Some completed, l') \<Rightarrow>
                  (case settle env a rows of
                     (calls, rows', escaped) \<Rightarrow> (calls, (l', rows'), escaped)))
        else ([], (l, rows), False))"

section \<open>Expiry reminders (bot.py)\<close>

definition REMINDER_THRESHOLDS :: "rat list" where
  "REMINDER_THRESHOLDS = [6, 1]"

text \<open>
  \<open>_reminders_sent\<close>: the thresholds already announced, by
  \<open>(thread_id, last_bid_at)\<close>.
\<close>

type_synonym markers = "int \<times> int \<Rightarrow> rat set option"

definition sent_for :: "markers \<Rightarrow> int \<times> int \<Rightarrow> rat set" where
  "sent_for m key = (case m key of None \<Rightarrow> {} | Some s \<Rightarrow> s)"

text \<open>What the outside does while one sweep handles one auction (lines 50-91).\<close>

record reminder_env =
  re_clock :: int
  re_thread_cached :: "chan option"
  re_thread_fetch :: "chan io"
  re_send :: "rat \<Rightarrow> unit io"

datatype reminder_event = ReminderSent rat | ReminderFailed rat

text \<open>
  The loop over the thresholds (lines 70-91). \<open>hours_left = seconds_left / 3600\<close> is
  Python's true division of two ints; the bounds it is compared with (5.5, 6, 0.5, 1)
  are floats with exact values and \<open>seconds_left\<close> is a whole number below
  \<open>2^53\<close>, so the comparisons come out as in exact arithmetic, which is used here.
  The marker is added after \<open>thread.send\<close> has returned. \<open>discord.HTTPException\<close>
  is caught inside the loop; any other exception leaves it (the bool).
\<close>

fun remind_thresholds ::
  "(rat \<Rightarrow> unit io) \<Rightarrow> rat \<Rightarrow> rat list \<Rightarrow> rat set \<Rightarrow> reminder_event list \<times> rat set \<times> bool" where
  "remind_thresholds send hours_left [] sent = ([], sent, False)"
| "remind_thresholds send hours_left (threshold_hours # rest) sent =
     (if threshold_hours \<in> sent then remind_thresholds send hours_left rest sent
      else if threshold_hours - 1/2 < hours_left \<and> hours_left \<le> threshold_hours
      then (case send threshold_hours of
              Returns u \<Rightarrow>
                (case remind_thresholds send hours_left rest (insert threshold_hours sent) of
                   (evs, sent', escaped) \<Rightarrow> (ReminderSent threshold_hours # evs, sent', escaped))
            | RaisesHTTP \<Rightarrow>
                (case remind_thresholds send hours_left rest sent of
                   (evs, sent', escaped) \<Rightarrow> (ReminderFailed threshold_hours # evs, sent', escaped))
            | RaisesOther \<Rightarrow> ([ReminderFailed threshold_hours], sent, True))
      else remind_thresholds send hours_left rest sent)"

text \<open>
  The body of the loop of \<open>_check_expiry_reminders\<close> for one active row (lines
  50-91). \<open>setdefault\<close> creates the entry of the key before the thread is looked up.
\<close>

definition remind_one ::
  "reminder_env \<Rightarrow> auction \<Rightarrow> markers \<Rightarrow> reminder_event list \<times> markers \<times> bool" where
  "remind_one env a m =
     (let seconds_left = seconds_until_expiry (re_clock env) (last_bid_at a);
          hours_left = of_int seconds_left / 3600;
          key = (thread_id a, last_bid_at a);
          sent_for_this_bid = sent_for m key;
          m1 = m(key \<mapsto> sent_for_this_bid)
      in case resolve_channel (re_thread_cached env) (re_thread_fetch env) of
           RaisesHTTP \<Rightarrow> ([], m1, False)
         | RaisesOther \<Rightarrow> ([], m1, True)
         | Returns OtherChan \<Rightarrow> ([], m1, False)
         | Returns ThreadChan \<Rightarrow>
             (case remind_thresholds (re_send env) hours_left REMINDER_THRESHOLDS
                     sent_for_this_bid of
                (evs, sent', escaped) \<Rightarrow> (evs, m(key \<mapsto> sent'), escaped)))"

text \<open>
  The rows as successive sweeps reach them, each with what the outside does then:
  any auctions, any number of sweeps, within one run of the process. An exception
  that leaves a loop body ends that sweep; the \<open>while\<close> loop goes on with the next
  one, so the markers are carried over either way. Events are tagged with the key.
\<close>

fun reminder_run ::
  "(reminder_env \<times> auction) list \<Rightarrow> markers
     \<Rightarrow> ((int \<times> int) \<times> reminder_event) list \<times> markers" where
  "reminder_run [] m = ([], m)"
| "reminder_run ((env, a) # obs) m =
     (case remind_one env a m of
        (evs, m', escaped) \<Rightarrow>
          (case reminder_run obs m' of
             (evs', m'') \<Rightarrow>
               (map (\<lambda>ev. ((thread_id a, last_bid_at a), ev)) evs @ evs', m'')))"

text \<open>
  One sweep of \<open>_check_expiry_reminders\<close> (lines 46-93): the loop over the active
  rows read at its start, left at the first exception that no handler inside the body
  catches. \<open>envs\<close> gives what the outside does while the row of a thread is handled.
\<close>

fun reminder_loop ::
  "(int \<Rightarrow> reminder_env) \<Rightarrow> auction list \<Rightarrow> markers
     \<Rightarrow> ((int \<times> int) \<times> reminder_event) list \<times> markers" where
  "reminder_loop envs [] m = ([], m)"
| "reminder_loop envs (a # rest) m =
     (case remind_one (envs (thread_id a)) a m of
        (evs, m', escaped) \<Rightarrow>
          if escaped then (map (\<lambda>ev. ((thread_id a, last_bid_at a), ev)) evs, m')
          else (case reminder_loop envs rest m' of
                  (evs', m'') \<Rightarrow>
                    (map (\<lambda>ev. ((thread_id a, last_bid_at a), ev)) evs @ evs', m'')))"

definition check_expiry_reminders ::
  "(int \<Rightarrow> reminder_env) \<Rightarrow> ledger \<Rightarrow> markers
     \<Rightarrow> ((int \<times> int) \<times> reminder_event) list \<times> markers" where
  "check_expiry_reminders envs l m =
     reminder_loop envs (get_active_auctions_for_reminders l) m"

text \<open>
  The \<open>while\<close> loop: sweep after sweep, each on the table as it is by then (bids and
  completions happen in between).
\<close>

fun reminder_sweeps ::
  "((int \<Rightarrow> reminder_env) \<times> ledger) list \<Rightarrow> markers
     \<Rightarrow> ((int \<times> int) \<times> reminder_event) list \<times> markers" where
  "reminder_sweeps [] m = ([], m)"
| "reminder_sweeps ((envs, l) # rest) m =
     (case check_expiry_reminders envs l m of
        (evs, m') \<Rightarrow>
          (case reminder_sweeps rest m' of (evs', m'') \<Rightarrow> (evs @ evs', m'')))"

text \<open>
  An observation delivers the reminder of a threshold: the thread is found, the hours
  left are inside the window of the threshold, and \<open>thread.send\<close> returns.
\<close>

definition hours_left_at :: "reminder_env \<Rightarrow> auction \<Rightarrow> rat" where
  "hours_left_at env a = of_int (seconds_until_expiry (re_clock env) (last_bid_at a)) / 3600"

definition in_window :: "rat \<Rightarrow> rat \<Rightarrow> bool" where
  "in_window h hours_left = (h - 1/2 < hours_left \<and> hours_left \<le> h)"

definition thread_found :: "reminder_env \<Rightarrow> bool" where
  "thread_found env =
     (resolve_channel (re_thread_cached env) (re_thread_fetch env) = Returns ThreadChan)"

definition delivers :: "reminder_env \<Rightarrow> auction \<Rightarrow> rat \<Rightarrow> bool" where
  "delivers env a h =
     (thread_found env \<and> in_window h (hours_left_at env a) \<and> re_send env h = Returns ())"


section \<open>Basic facts about the ledger\<close>

lemma map_thread_id_place_bid_update:
  "map thread_id (place_bid_update l tid amount b n now) = map thread_id l"
  by (induction l) (simp_all add: place_bid_update_def)

lemma map_thread_id_complete_update:
  "map thread_id (complete_update l tid) = map thread_id l"
  by (induction l) (simp_all add: complete_update_def)

lemma insert_row_None_iff:
  "insert_row l row = None \<longleftrightarrow> thread_id row \<in> thread_id ` set l"
  by (simp add: insert_row_def list_ex_iff image_iff) metis

lemma get_auction_by_thread_SomeD:
  "get_auction_by_thread l tid = Some a \<Longrightarrow> a \<in> set l \<and> thread_id a = tid"
  by (auto simp: get_auction_by_thread_def find_Some_iff)

lemma unique_threads_insert_row:
  "unique_threads l \<Longrightarrow> insert_row l row = Some l' \<Longrightarrow> unique_threads l'"
proof -
  assume u: "unique_threads l" and i: "insert_row l row = Some l'"
  from i have fresh: "\<forall>r\<in>set l. thread_id r \<noteq> thread_id row" and l': "l' = l @ [row]"
    by (simp_all add: insert_row_def list_ex_iff split: if_splits)
  from fresh have "thread_id row \<notin> set (map thread_id l)"
    by force
  with u show ?thesis
    by (simp add: unique_threads_def l')
qed

lemma unique_threads_apply_op: "unique_threads l \<Longrightarrow> unique_threads (apply_op l x)"
proof (cases x)
  case Create
  then show "unique_threads l \<Longrightarrow> ?thesis"
    by (auto simp: create_auction_def split: option.splits dest: unique_threads_insert_row)
next
  case Register
  then show "unique_threads l \<Longrightarrow> ?thesis"
    by (auto simp: register_existing_auction_def split: option.splits
        dest: unique_threads_insert_row)
next
  case PlaceBid
  then show "unique_threads l \<Longrightarrow> ?thesis"
    by (auto simp: place_bid_def Let_def unique_threads_def map_thread_id_place_bid_update
        split: option.splits)
next
  case Complete
  then show "unique_threads l \<Longrightarrow> ?thesis"
    by (simp add: complete_auction_def Let_def unique_threads_def map_thread_id_complete_update)
qed

lemma unique_threads_run_ops: "unique_threads l \<Longrightarrow> unique_threads (run_ops l ops)"
  unfolding run_ops_def
  by (induction ops arbitrary: l) (simp_all add: unique_threads_apply_op)

lemma get_auction_by_thread_append_fresh:
  "tid \<notin> thread_id ` set l \<Longrightarrow> thread_id row = tid \<Longrightarrow>
   get_auction_by_thread (l @ [row]) tid = Some row"
  by (induction l) (auto simp: get_auction_by_thread_def)

lemma create_auction_duplicate:
  "tid \<in> thread_id ` set l \<Longrightarrow>
   create_auction l now tid cid gid pname bid b bn = (None, l)"
  using insert_row_None_iff [of l "\<lparr>thread_id = tid, channel_id = cid, guild_id = gid,
         player_name = pname, current_bid = bid, current_bidder_id = Some b,
         current_bidder_name = Some bn,
         created_at = now, last_bid_at = now, status = Active\<rparr>"]
  by (simp add: create_auction_def)

lemma register_existing_auction_duplicate:
  "tid \<in> thread_id ` set l \<Longrightarrow>
   register_existing_auction l tid cid gid pname bid ob bn created lb = (None, l)"
  using insert_row_None_iff [of l "\<lparr>thread_id = tid, channel_id = cid, guild_id = gid,
         player_name = pname, current_bid = bid, current_bidder_id = ob,
         current_bidder_name = Some bn,
         created_at = created, last_bid_at = lb, status = Active\<rparr>"]
  by (simp add: register_existing_auction_def)

lemma create_auction_fresh:
  "tid \<notin> thread_id ` set l \<Longrightarrow>
   create_auction l now tid cid gid pname bid b bn =
     (Some \<lparr>thread_id = tid, channel_id = cid, guild_id = gid, player_name = pname,
         current_bid = bid, current_bidder_id = Some b,
         current_bidder_name = Some bn,
         created_at = now, last_bid_at = now, status = Active\<rparr>,
      l @ [\<lparr>thread_id = tid, channel_id = cid, guild_id = gid, player_name = pname,
         current_bid = bid, current_bidder_id = Some b,
         current_bidder_name = Some bn,
         created_at = now, last_bid_at = now, status = Active\<rparr>])"
  using insert_row_None_iff [of l "\<lparr>thread_id = tid, channel_id = cid, guild_id = gid,
         player_name = pname, current_bid = bid, current_bidder_id = Some b,
         current_bidder_name = Some bn,
         created_at = now, last_bid_at = now, status = Active\<rparr>"]
  by (auto simp: create_auction_def insert_row_def get_auction_by_thread_append_fresh
      split: option.splits if_splits)

lemma register_existing_auction_fresh:
  "tid \<notin> thread_id ` set l \<Longrightarrow>
   register_existing_auction l tid cid gid pname bid ob bn created lb =
     (Some \<lparr>thread_id = tid, channel_id = cid, guild_id = gid, player_name = pname,
         current_bid = bid, current_bidder_id = ob,
         current_bidder_name = Some bn,
         created_at = created, last_bid_at = lb, status = Active\<rparr>,
      l @ [\<lparr>thread_id = tid, channel_id = cid, guild_id = gid, player_name = pname,
         current_bid = bid, current_bidder_id = ob,
         current_bidder_name = Some bn,
         created_at = created, last_bid_at = lb, status = Active\<rparr>])"
  using insert_row_None_iff [of l "\<lparr>thread_id = tid, channel_id = cid, guild_id = gid,
         player_name = pname, current_bid = bid, current_bidder_id = ob,
         current_bidder_name = Some bn,
         created_at = created, last_bid_at = lb, status = Active\<rparr>"]
  by (auto simp: register_existing_auction_def insert_row_def get_auction_by_thread_append_fresh
      split: option.splits if_splits)

subsection \<open>Reading a thread after an update\<close>

lemma find_map_thread_id:
  assumes "\<And>r. thread_id (f r) = thread_id r"
  shows "find (\<lambda>r. thread_id r = t) (map f l) = map_option f (find (\<lambda>r. thread_id r = t) l)"
  by (induction l) (simp_all add: assms)

lemma get_auction_by_thread_place_bid_update:
  "get_auction_by_thread (place_bid_update l tid amount b bn now) t =
     map_option (\<lambda>r. if thread_id r = tid \<and> status r = Active
              then r\<lparr>current_bid := amount, current_bidder_id := Some b,
                     current_bidder_name := Some bn, last_bid_at := now\<rparr>
              else r) (get_auction_by_thread l t)"
  unfolding get_auction_by_thread_def place_bid_update_def
  by (rule find_map_thread_id) simp

lemma get_auction_by_thread_complete_update:
  "get_auction_by_thread (complete_update l tid) t =
     map_option (\<lambda>r. if thread_id r = tid \<and> status r = Active then r\<lparr>status := Completed\<rparr> else r)
       (get_auction_by_thread l t)"
  unfolding get_auction_by_thread_def complete_update_def
  by (rule find_map_thread_id) simp

lemma get_auction_by_thread_append:
  "get_auction_by_thread (l @ [row]) t =
     (case get_auction_by_thread l t of
        Some a \<Rightarrow> Some a
      | None \<Rightarrow> if thread_id row = t then Some row else None)"
  by (induction l) (simp_all add: get_auction_by_thread_def)

lemma unique_threads_get:
  "unique_threads l \<Longrightarrow> r \<in> set l \<Longrightarrow> get_auction_by_thread l (thread_id r) = Some r"
  by (induction l) (auto simp: unique_threads_def get_auction_by_thread_def)

lemma place_bid_update_noop:
  assumes "unique_threads l" "get_auction_by_thread l tid = Some a" "status a \<noteq> Active"
  shows "place_bid_update l tid amount b bn now = l"
proof -
  have "\<And>r. r \<in> set l \<Longrightarrow> thread_id r = tid \<Longrightarrow> r = a"
    using assms(1,2) unique_threads_get by fastforce
  with assms(3) show ?thesis
    unfolding place_bid_update_def by (intro map_idI) auto
qed

lemma place_bid_update_changes:
  assumes "get_auction_by_thread l tid = Some a" "status a = Active" "current_bid a \<noteq> amount"
  shows "place_bid_update l tid amount b bn now \<noteq> l"
proof
  assume same: "place_bid_update l tid amount b bn now = l"
  have tid: "thread_id a = tid"
    using assms(1) by (simp add: get_auction_by_thread_SomeD)
  have "get_auction_by_thread (place_bid_update l tid amount b bn now) tid =
          Some (a\<lparr>current_bid := amount, current_bidder_id := Some b,
                  current_bidder_name := Some bn, last_bid_at := now\<rparr>)"
    using assms(1,2) tid by (simp add: get_auction_by_thread_place_bid_update)
  with same assms(1)
  have "a\<lparr>current_bid := amount, current_bidder_id := Some b,
          current_bidder_name := Some bn, last_bid_at := now\<rparr> = a"
    by simp
  then have "current_bid (a\<lparr>current_bid := amount, current_bidder_id := Some b,
          current_bidder_name := Some bn, last_bid_at := now\<rparr>) = current_bid a"
    by (rule arg_cong)
  with assms(3) show False by simp
qed

lemma place_bid_accepted:
  assumes "get_auction_by_thread l tid = Some a" "status a = Active" "current_bid a < amount"
  shows "place_bid l now tid amount b bn =
           (Some (a\<lparr>current_bid := amount, current_bidder_id := Some b,
                    current_bidder_name := Some bn, last_bid_at := now\<rparr>),
            place_bid_update l tid amount b bn now)"
    and "place_bid_update l tid amount b bn now \<noteq> l"
proof -
  have tid: "thread_id a = tid"
    using assms(1) by (simp add: get_auction_by_thread_SomeD)
  show "place_bid l now tid amount b bn =
           (Some (a\<lparr>current_bid := amount, current_bidder_id := Some b,
                    current_bidder_name := Some bn, last_bid_at := now\<rparr>),
            place_bid_update l tid amount b bn now)"
    using assms tid by (simp add: place_bid_def Let_def get_auction_by_thread_place_bid_update)
  show "place_bid_update l tid amount b bn now \<noteq> l"
    using assms by (intro place_bid_update_changes [of l tid a]) simp_all
qed

lemma place_bid_rejected:
  assumes "unique_threads l"
    and "\<not> (\<exists>a. get_auction_by_thread l tid = Some a \<and> status a = Active \<and> current_bid a < amount)"
  shows "snd (place_bid l now tid amount b bn) = l"
proof (cases "get_auction_by_thread l tid")
  case None
  then show ?thesis by (simp add: place_bid_def)
next
  case (Some a)
  show ?thesis
  proof (cases "amount \<le> current_bid a")
    case True
    with Some show ?thesis by (simp add: place_bid_def)
  next
    case False
    with assms(2) Some have "status a \<noteq> Active" by auto
    with assms(1) Some have "place_bid_update l tid amount b bn now = l"
      by (rule place_bid_update_noop)
    with Some False show ?thesis by (simp add: place_bid_def Let_def)
  qed
qed

lemma place_bid_ledger:
  "snd (place_bid l now tid amount b bn) = l \<or>
   snd (place_bid l now tid amount b bn) = place_bid_update l tid amount b bn now"
  by (simp add: place_bid_def Let_def split: option.splits)

lemma place_bid_other_thread:
  assumes "t \<noteq> tid"
  shows "get_auction_by_thread (snd (place_bid l now tid amount b bn)) t = get_auction_by_thread l t"
proof -
  have "get_auction_by_thread (place_bid_update l tid amount b bn now) t = get_auction_by_thread l t"
  proof (cases "get_auction_by_thread l t")
    case None
    then show ?thesis by (simp add: get_auction_by_thread_place_bid_update)
  next
    case (Some r)
    then have "thread_id r = t" by (simp add: get_auction_by_thread_SomeD)
    with Some assms show ?thesis by (simp add: get_auction_by_thread_place_bid_update)
  qed
  with place_bid_ledger [of l now tid amount b bn] show ?thesis by auto
qed

lemma complete_auction_row:
  "get_auction_by_thread (snd (complete_auction l tid)) t =
     map_option (\<lambda>r. if thread_id r = tid \<and> status r = Active then r\<lparr>status := Completed\<rparr> else r)
       (get_auction_by_thread l t)"
  by (simp add: complete_auction_def Let_def get_auction_by_thread_complete_update)

lemma insert_keeps_row:
  assumes "get_auction_by_thread l t = Some a"
  shows "get_auction_by_thread (snd (create_auction l now tid cid gid pname bid b bn)) t = Some a"
    and "get_auction_by_thread
           (snd (register_existing_auction l tid cid gid pname bid ob bn created lb)) t = Some a"
  using assms
  by (auto simp: create_auction_def register_existing_auction_def insert_row_def
      get_auction_by_thread_append split: option.splits if_splits)

subsection \<open>One operation, and runs of operations\<close>

lemma accepted_bids_Cons:
  "accepted_bids l (x # xs) t = accepted_bids l [x] t @ accepted_bids (apply_op l x) xs t"
  by (cases x) simp_all

lemma place_bid_returns_iff:
  "fst (place_bid l now tid amount b bn) \<noteq> None \<longleftrightarrow>
     (\<exists>a. get_auction_by_thread l tid = Some a \<and> current_bid a < amount)"
  by (auto simp: place_bid_def Let_def get_auction_by_thread_place_bid_update
      split: option.splits)

lemma apply_op_step_active:
  assumes "unique_threads l" "get_auction_by_thread l t = Some a" "status a = Active"
  shows "\<exists>a1. get_auction_by_thread (apply_op l x) t = Some a1 \<and>
     ((\<exists>m b. accepted_bids l [x] t = [(m, b)] \<and> current_bid a < m \<and> current_bid a1 = m
            \<and> current_bidder_id a1 = Some b) \<or>
      (accepted_bids l [x] t = [] \<and> current_bid a1 = current_bid a
            \<and> current_bidder_id a1 = current_bidder_id a))"
proof (cases x)
  case (Create now tid cid gid pname bid b bn)
  with insert_keeps_row(1) [OF assms(2)] show ?thesis by simp
next
  case (Register tid cid gid pname bid ob bn created lb)
  with insert_keeps_row(2) [OF assms(2)] show ?thesis by simp
next
  case (Complete tid)
  with assms(2) show ?thesis by (simp add: complete_auction_row)
next
  case (PlaceBid now tid amount b bn)
  show ?thesis
  proof (cases "tid = t")
    case False
    then have "get_auction_by_thread (apply_op l x) t = Some a"
      using PlaceBid assms(2) place_bid_other_thread [of t tid l now amount b bn] by simp
    with False PlaceBid show ?thesis by simp
  next
    case True
    show ?thesis
    proof (cases "current_bid a < amount")
      case acc: True
      from assms(2,3) acc True
      have "place_bid l now tid amount b bn =
           (Some (a\<lparr>current_bid := amount, current_bidder_id := Some b,
                    current_bidder_name := Some bn, last_bid_at := now\<rparr>),
            place_bid_update l tid amount b bn now)"
        by (simp add: place_bid_accepted)
      with acc assms(2) get_auction_by_thread_SomeD [OF assms(2)]
      show ?thesis using PlaceBid True assms(3)
        by (simp add: get_auction_by_thread_place_bid_update)
    next
      case rej: False
      with assms(2) True have "place_bid l now tid amount b bn = (None, l)"
        by (simp add: place_bid_def)
      with PlaceBid assms(2) True show ?thesis by simp
    qed
  qed
qed

lemma apply_op_completed:
  assumes "unique_threads l" "get_auction_by_thread l t = Some a" "status a = Completed"
  shows "get_auction_by_thread (apply_op l x) t = Some a"
proof (cases x)
  case (Create now tid cid gid pname bid b bn)
  with insert_keeps_row(1) [OF assms(2)] show ?thesis by simp
next
  case (Register tid cid gid pname bid ob bn created lb)
  with insert_keeps_row(2) [OF assms(2)] show ?thesis by simp
next
  case (Complete tid)
  with assms(2,3) show ?thesis by (simp add: complete_auction_row)
next
  case (PlaceBid now tid amount b bn)
  show ?thesis
  proof (cases "tid = t")
    case False
    then show ?thesis
      using PlaceBid assms(2) place_bid_other_thread [of t tid l now amount b bn] by simp
  next
    case True
    with assms(2,3)
    have "\<not> (\<exists>a. get_auction_by_thread l tid = Some a \<and> status a = Active \<and> current_bid a < amount)"
      by auto
    with assms(1) have "snd (place_bid l now tid amount b bn) = l"
      by (rule place_bid_rejected)
    with PlaceBid assms(2) show ?thesis by simp
  qed
qed

lemma run_ops_Cons: "run_ops l (x # xs) = run_ops (apply_op l x) xs"
  by (simp add: run_ops_def)

lemma run_ops_completed:
  assumes "unique_threads l" "get_auction_by_thread l t = Some a" "status a = Completed"
  shows "get_auction_by_thread (run_ops l ops) t = Some a"
  using assms
proof (induction ops arbitrary: l)
  case Nil
  then show ?case by (simp add: run_ops_def)
next
  case (Cons x xs)
  have "unique_threads (apply_op l x)"
    using Cons.prems(1) by (rule unique_threads_apply_op)
  moreover have "get_auction_by_thread (apply_op l x) t = Some a"
    using Cons.prems by (rule apply_op_completed)
  ultimately show ?case
    using Cons.IH Cons.prems(3) by (simp add: run_ops_Cons)
qed

lemma apply_op_never_lowers:
  assumes "unique_threads l" "get_auction_by_thread l t = Some a"
  shows "\<exists>a1. get_auction_by_thread (apply_op l x) t = Some a1 \<and> current_bid a \<le> current_bid a1"
proof (cases "status a")
  case Active
  from apply_op_step_active [OF assms this, of x] show ?thesis by auto
next
  case Completed
  from apply_op_completed [OF assms this, of x] show ?thesis by simp
qed

lemma run_ops_never_lowers:
  assumes "unique_threads l" "get_auction_by_thread l t = Some a"
  shows "\<exists>a'. get_auction_by_thread (run_ops l ops) t = Some a' \<and> current_bid a \<le> current_bid a'"
  using assms
proof (induction ops arbitrary: l a)
  case Nil
  then show ?case by (simp add: run_ops_def)
next
  case (Cons x xs)
  from apply_op_never_lowers [OF Cons.prems, of x] obtain a1 where
    a1: "get_auction_by_thread (apply_op l x) t = Some a1" and le: "current_bid a \<le> current_bid a1"
    by blast
  have "unique_threads (apply_op l x)"
    using Cons.prems(1) by (rule unique_threads_apply_op)
  from Cons.IH [OF this a1] obtain a' where
    "get_auction_by_thread (run_ops (apply_op l x) xs) t = Some a'" "current_bid a1 \<le> current_bid a'"
    by blast
  with le show ?case by (auto simp: run_ops_Cons)
qed

lemma run_ops_bids:
  assumes "unique_threads l" "get_auction_by_thread l t = Some a"
    and "get_auction_by_thread (run_ops l ops) t = Some a'" "status a' = Active"
  shows "sorted_wrt (<) (current_bid a # map fst (accepted_bids l ops t)) \<and>
    current_bid a' = last (current_bid a # map fst (accepted_bids l ops t)) \<and>
    current_bidder_id a' =
      (if accepted_bids l ops t = [] then current_bidder_id a
       else Some (snd (last (accepted_bids l ops t))))"
  using assms
proof (induction ops arbitrary: l a)
  case Nil
  then show ?case by (simp add: run_ops_def)
next
  case (Cons x xs)
  have act: "status a = Active"
  proof (rule ccontr)
    assume "status a \<noteq> Active"
    then have "status a = Completed" by (cases "status a") simp_all
    from run_ops_completed [OF Cons.prems(1,2) this, of "x # xs"] Cons.prems(3,4) this
    show False by simp
  qed
  from apply_op_step_active [OF Cons.prems(1,2) act, of x] obtain a1 where
    a1: "get_auction_by_thread (apply_op l x) t = Some a1"
    and step: "(\<exists>m b. accepted_bids l [x] t = [(m, b)] \<and> current_bid a < m \<and> current_bid a1 = m
            \<and> current_bidder_id a1 = Some b) \<or>
      (accepted_bids l [x] t = [] \<and> current_bid a1 = current_bid a
            \<and> current_bidder_id a1 = current_bidder_id a)"
    by blast
  have u1: "unique_threads (apply_op l x)"
    using Cons.prems(1) by (rule unique_threads_apply_op)
  have fin: "get_auction_by_thread (run_ops (apply_op l x) xs) t = Some a'"
    using Cons.prems(3) by (simp add: run_ops_Cons)
  from Cons.IH [OF u1 a1 fin Cons.prems(4)] have
    srt: "sorted_wrt (<) (current_bid a1 # map fst (accepted_bids (apply_op l x) xs t))"
    and lst: "current_bid a' = last (current_bid a1 # map fst (accepted_bids (apply_op l x) xs t))"
    and bdr: "current_bidder_id a' =
      (if accepted_bids (apply_op l x) xs t = [] then current_bidder_id a1
       else Some (snd (last (accepted_bids (apply_op l x) xs t))))"
    by blast+
  from step show ?case
  proof
    assume "\<exists>m b. accepted_bids l [x] t = [(m, b)] \<and> current_bid a < m \<and> current_bid a1 = m
            \<and> current_bidder_id a1 = Some b"
    then obtain m b where acc: "accepted_bids l [x] t = [(m, b)]" and lt: "current_bid a < m"
      and m: "current_bid a1 = m" and b: "current_bidder_id a1 = Some b"
      by blast
    have "sorted_wrt (<) (current_bid a # m # map fst (accepted_bids (apply_op l x) xs t))"
      using srt lt m by fastforce
    with lst bdr acc m b show ?thesis
      by (simp add: accepted_bids_Cons [of l x xs t])
  next
    assume "accepted_bids l [x] t = [] \<and> current_bid a1 = current_bid a
            \<and> current_bidder_id a1 = current_bidder_id a"
    with srt lst bdr show ?thesis
      by (simp add: accepted_bids_Cons [of l x xs t])
  qed
qed



lemma place_bid_None_iff:
  "fst (place_bid l now tid amount b bn) = None \<longleftrightarrow>
     (case get_auction_by_thread l tid of None \<Rightarrow> True | Some a \<Rightarrow> amount \<le> current_bid a)"
  by (auto simp: place_bid_def Let_def get_auction_by_thread_place_bid_update
      split: option.splits)

lemma place_bid_None_unchanged:
  "fst (place_bid l now tid amount b bn) = None \<Longrightarrow> snd (place_bid l now tid amount b bn) = l"
  by (auto simp: place_bid_def Let_def get_auction_by_thread_place_bid_update
      split: option.splits if_splits)

lemma place_bid_never_lowers:
  assumes "get_auction_by_thread l t = Some a"
  shows "\<exists>a'. get_auction_by_thread (snd (place_bid l now tid amount b bn)) t = Some a' \<and>
              current_bid a \<le> current_bid a'"
proof (cases "t = tid")
  case False
  with assms place_bid_other_thread [of t tid l now amount b bn] show ?thesis by simp
next
  case True
  with assms show ?thesis
    by (auto simp: place_bid_def Let_def get_auction_by_thread_place_bid_update)
qed

lemma bid_steps_place_bid:
  "bid_step c3 c (bid_step c2 c (bid_step now c (AtRead, l))) =
     (Finished (fst (place_bid l now (bc_thread c) (bc_amount c) (bc_bidder_id c) (bc_bidder_name c))),
      snd (place_bid l now (bc_thread c) (bc_amount c) (bc_bidder_id c) (bc_bidder_name c)))"
  by (auto simp: place_bid_def place_bid_check_def Let_def split: option.splits)

section \<open>Facts about the bid command\<close>

lemma place_bid_NoneD: "place_bid l now tid amount b bn = (None, l') \<Longrightarrow> l' = l"
  using place_bid_None_unchanged [of l now tid amount b bn] by simp

lemma bid_command_rejected_unchanged:
  "\<not> accepted (fst (bid_command acid now orc l ia amount)) \<Longrightarrow>
   snd (bid_command acid now orc l ia amount) = l"
  by (auto simp: bid_command_def Let_def split: option.splits if_splits prod.splits
      dest: place_bid_NoneD)

lemma bid_command_accepted_checks:
  assumes "accepted (fst (bid_command acid now orc l ia amount))"
  shows "\<exists>rows balance tid a. orc = Some rows \<and>
           get_pom_balance_sync rows (ia_user ia) = Some balance \<and>
           ia_channel ia = Some tid \<and> get_auction_by_thread l tid = Some a \<and>
           status a = Active \<and> current_bid a < amount \<and>
           current_bidder_id a \<noteq> Some (ia_user ia) \<and>
           amount \<le> balance - get_committed_pom_for_user l (ia_user ia)"
  using assms
  by (auto simp: bid_command_def Let_def split: option.splits if_splits prod.splits
      intro: status.exhaust)

lemma committed_excludes_thread:
  assumes "unique_threads l" "get_auction_by_thread l tid = Some a"
    and "current_bidder_id a \<noteq> Some uid"
  shows "get_committed_pom_for_user l uid =
           sum_list (map current_bid
             (filter (\<lambda>r. status r = Active \<and> current_bidder_id r = Some uid \<and> thread_id r \<noteq> tid) l))"
proof -
  have "\<And>r. r \<in> set l \<Longrightarrow> thread_id r = tid \<Longrightarrow> r = a"
    using assms(1,2) unique_threads_get by fastforce
  with assms(3) have "filter (\<lambda>r. status r = Active \<and> current_bidder_id r = Some uid) l =
        filter (\<lambda>r. status r = Active \<and> current_bidder_id r = Some uid \<and> thread_id r \<noteq> tid) l"
    by (intro filter_cong) auto
  then show ?thesis by (simp add: get_committed_pom_for_user_def)
qed

lemma bid_command_accepted_effect:
  assumes "accepted (fst (bid_command acid now orc l ia amount))"
  shows "\<exists>tid a. ia_channel ia = Some tid \<and> get_auction_by_thread l tid = Some a \<and>
           status a = Active \<and> current_bid a < amount \<and>
           bid_command acid now orc l ia amount =
             (NewHighBid (a\<lparr>current_bid := amount, current_bidder_id := Some (ia_user ia),
                              current_bidder_name := Some (ia_display_name ia),
                              last_bid_at := now\<rparr>),
              place_bid_update l tid amount (ia_user ia) (ia_display_name ia) now) \<and>
           place_bid_update l tid amount (ia_user ia) (ia_display_name ia) now \<noteq> l"
proof -
  from bid_command_accepted_checks [OF assms] obtain rows balance tid a where
    f: "orc = Some rows" "get_pom_balance_sync rows (ia_user ia) = Some balance"
       "ia_channel ia = Some tid" "get_auction_by_thread l tid = Some a"
       "status a = Active" "current_bid a < amount"
       "current_bidder_id a \<noteq> Some (ia_user ia)"
       "amount \<le> balance - get_committed_pom_for_user l (ia_user ia)"
    by blast
  from assms have g: "ia_guild ia \<noteq> None" and c: "acid = None"
    by (auto simp: bid_command_def split: option.splits if_splits)
  have pb: "place_bid l now tid amount (ia_user ia) (ia_display_name ia) =
           (Some (a\<lparr>current_bid := amount, current_bidder_id := Some (ia_user ia),
                    current_bidder_name := Some (ia_display_name ia), last_bid_at := now\<rparr>),
            place_bid_update l tid amount (ia_user ia) (ia_display_name ia) now)"
    and ne: "place_bid_update l tid amount (ia_user ia) (ia_display_name ia) now \<noteq> l"
    using f(4,5,6) by (simp_all add: place_bid_accepted)
  from f g c pb have "bid_command acid now orc l ia amount =
             (NewHighBid (a\<lparr>current_bid := amount, current_bidder_id := Some (ia_user ia),
                              current_bidder_name := Some (ia_display_name ia),
                              last_bid_at := now\<rparr>),
              place_bid_update l tid amount (ia_user ia) (ia_display_name ia) now)"
    by (auto simp: bid_command_def Let_def)
  with f ne show ?thesis by blast
qed

lemma bid_command_accepted_is_accepted_bid:
  assumes "accepted (fst (bid_command acid now orc l ia amount))"
  shows "\<exists>tid. ia_channel ia = Some tid \<and>
           snd (bid_command acid now orc l ia amount) =
             apply_op l (PlaceBid now tid amount (ia_user ia) (ia_display_name ia)) \<and>
           accepted_bids l [PlaceBid now tid amount (ia_user ia) (ia_display_name ia)] tid =
             [(amount, ia_user ia)]"
proof -
  from bid_command_accepted_effect [OF assms] obtain tid a where
    f: "ia_channel ia = Some tid" "get_auction_by_thread l tid = Some a"
       "status a = Active" "current_bid a < amount"
       "snd (bid_command acid now orc l ia amount) =
          place_bid_update l tid amount (ia_user ia) (ia_display_name ia) now"
       "place_bid_update l tid amount (ia_user ia) (ia_display_name ia) now \<noteq> l"
    by force
  from f(2,3,4) have "place_bid l now tid amount (ia_user ia) (ia_display_name ia) =
           (Some (a\<lparr>current_bid := amount, current_bidder_id := Some (ia_user ia),
                    current_bidder_name := Some (ia_display_name ia), last_bid_at := now\<rparr>),
            place_bid_update l tid amount (ia_user ia) (ia_display_name ia) now)"
    by (simp add: place_bid_accepted)
  with f show ?thesis by simp
qed

section \<open>Facts about the settlement\<close>

lemma settle_sheets_deduct_iff:
  "(\<exists>uid amt. DeductPom uid amt \<in> set (fst (settle_sheets env a rows))) \<longleftrightarrow>
     ce_append env = Returns () \<and> (\<exists>uid. current_bidder_id a = Some uid \<and> uid \<noteq> 0)"
  by (auto simp: settle_sheets_def split: io.splits option.splits prod.splits bool.splits)

lemma settle_reaches:
  "reaches_sheets env \<Longrightarrow>
   settle env a rows =
     ([ThreadSend, ThreadEdit, ChannelSend] @ fst (settle_sheets env a rows) @ [PinnedUpdate],
      snd (settle_sheets env a rows), False)"
  by (auto simp: settle_def reaches_sheets_def split: io.splits chan.splits prod.splits)

lemma settle_not_reaches:
  "\<not> reaches_sheets env \<Longrightarrow>
   set (fst (settle env a rows)) \<subseteq> {ThreadSend, ThreadEdit, ChannelSend} \<and>
   fst (snd (settle env a rows)) = rows"
  by (auto simp: settle_def reaches_sheets_def split: io.splits chan.splits prod.splits)

lemma settle_deduct_iff:
  "(\<exists>uid amt. DeductPom uid amt \<in> set (fst (settle env a rows))) \<longleftrightarrow>
     reaches_sheets env \<and> ce_append env = Returns () \<and>
     (\<exists>uid. current_bidder_id a = Some uid \<and> uid \<noteq> 0)"
proof (cases "reaches_sheets env")
  case True
  then show ?thesis
    using settle_sheets_deduct_iff [of env a rows] by (simp add: settle_reaches)
next
  case False
  from settle_not_reaches [OF this, of a rows] False show ?thesis by auto
qed

lemma settle_pinned_iff:
  "PinnedUpdate \<in> set (fst (settle env a rows)) \<longleftrightarrow> reaches_sheets env"
proof (cases "reaches_sheets env")
  case True
  then show ?thesis by (simp add: settle_reaches)
next
  case False
  from settle_not_reaches [OF this, of a rows] False show ?thesis by auto
qed

section \<open>Facts about the reminder loop\<close>

lemma remind_thresholds_6_1:
  "remind_thresholds send hl [6, 1] sent =
     (if 6 \<notin> sent \<and> in_window 6 hl
      then (case send 6 of
              Returns u \<Rightarrow> ([ReminderSent 6], insert 6 sent, False)
            | RaisesHTTP \<Rightarrow> ([ReminderFailed 6], sent, False)
            | RaisesOther \<Rightarrow> ([ReminderFailed 6], sent, True))
      else if 1 \<notin> sent \<and> in_window 1 hl
      then (case send 1 of
              Returns u \<Rightarrow> ([ReminderSent 1], insert 1 sent, False)
            | RaisesHTTP \<Rightarrow> ([ReminderFailed 1], sent, False)
            | RaisesOther \<Rightarrow> ([ReminderFailed 1], sent, True))
      else ([], sent, False))"
  by (auto simp: in_window_def split: io.splits)

text \<open>One observation, as seen from one threshold of one key.\<close>

lemma remind_one_other_key:
  "k \<noteq> (thread_id a, last_bid_at a) \<Longrightarrow>
   sent_for (fst (snd (remind_one env a m))) k = sent_for m k"
  by (auto simp: remind_one_def Let_def sent_for_def split: io.splits chan.splits prod.splits)

lemma remind_one_not_found:
  "\<not> thread_found env \<Longrightarrow>
   fst (remind_one env a m) = [] \<and>
   sent_for (fst (snd (remind_one env a m))) k = sent_for m k"
  by (auto simp: remind_one_def Let_def sent_for_def thread_found_def
      split: io.splits chan.splits prod.splits)

lemma remind_one_found:
  "thread_found env \<Longrightarrow>
   remind_one env a m =
     (case remind_thresholds (re_send env) (hours_left_at env a) [6, 1]
             (sent_for m (thread_id a, last_bid_at a)) of
        (evs, sent', escaped) \<Rightarrow> (evs, m((thread_id a, last_bid_at a) \<mapsto> sent'), escaped))"
  by (simp add: remind_one_def Let_def thread_found_def hours_left_at_def
      REMINDER_THRESHOLDS_def)

lemma remind_one_marked:
  assumes "h \<in> sent_for m (thread_id a, last_bid_at a)" "h = 6 \<or> h = 1"
  shows "ReminderSent h \<notin> set (fst (remind_one env a m)) \<and>
         ReminderFailed h \<notin> set (fst (remind_one env a m)) \<and>
         h \<in> sent_for (fst (snd (remind_one env a m))) (thread_id a, last_bid_at a)"
proof (cases "thread_found env")
  case False
  from remind_one_not_found [OF this, of a m] assms(1) show ?thesis by simp
next
  case True
  with assms show ?thesis
    by (auto simp: remind_one_found sent_for_def split: io.splits)
qed

lemma remind_one_delivers:
  assumes "h \<notin> sent_for m (thread_id a, last_bid_at a)" "h = 6 \<or> h = 1" "delivers env a h"
  shows "count_list (fst (remind_one env a m)) (ReminderSent h) = 1 \<and>
         h \<in> sent_for (fst (snd (remind_one env a m))) (thread_id a, last_bid_at a)"
  using assms
  by (auto simp: delivers_def remind_one_found in_window_def sent_for_def
      split: io.splits)

lemma remind_one_not_delivers:
  assumes "h \<notin> sent_for m (thread_id a, last_bid_at a)" "h = 6 \<or> h = 1" "\<not> delivers env a h"
  shows "ReminderSent h \<notin> set (fst (remind_one env a m)) \<and>
         h \<notin> sent_for (fst (snd (remind_one env a m))) (thread_id a, last_bid_at a)"
proof (cases "thread_found env")
  case False
  from remind_one_not_found [OF this, of a m] assms(1) show ?thesis by simp
next
  case True
  with assms show ?thesis
    by (auto simp: delivers_def remind_one_found in_window_def sent_for_def
        split: io.splits)
qed

lemma remind_one_outside_window:
  assumes "\<not> in_window h (hours_left_at env a)" "h = 6 \<or> h = 1"
  shows "ReminderSent h \<notin> set (fst (remind_one env a m)) \<and>
         ReminderFailed h \<notin> set (fst (remind_one env a m))"
proof (cases "thread_found env")
  case False
  from remind_one_not_found [OF this, of a m] show ?thesis by simp
next
  case True
  with assms show ?thesis
    by (auto simp: remind_one_found in_window_def split: io.splits)
qed

lemma count_list_tagged:
  "count_list (map (\<lambda>ev. (c, ev)) evs) (k, x) = (if c = k then count_list evs x else 0)"
  by (induction evs) auto

lemma reminder_run_count:
  assumes "h = 6 \<or> h = 1"
  shows "count_list (fst (reminder_run obs m)) (k, ReminderSent h) =
           (if h \<notin> sent_for m k \<and>
               (\<exists>(env, a) \<in> set obs. (thread_id a, last_bid_at a) = k \<and> delivers env a h)
            then 1 else 0)"
proof (induction obs arbitrary: m)
  case Nil
  show ?case by simp
next
  case (Cons ob obs)
  obtain env a where ob: "ob = (env, a)" by (cases ob)
  obtain evs m' esc where r: "remind_one env a m = (evs, m', esc)"
    by (cases "remind_one env a m") auto
  have run: "fst (reminder_run (ob # obs) m) =
               map (\<lambda>ev. ((thread_id a, last_bid_at a), ev)) evs @ fst (reminder_run obs m')"
    using ob r by (simp split: prod.splits)
  have cnt: "count_list (fst (reminder_run (ob # obs) m)) (k, ReminderSent h) =
               (if (thread_id a, last_bid_at a) = k then count_list evs (ReminderSent h) else 0)
               + count_list (fst (reminder_run obs m')) (k, ReminderSent h)"
    unfolding run by (simp add: count_list_tagged)
  show ?case
  proof (cases "(thread_id a, last_bid_at a) = k")
    case False
    then have "sent_for m' k = sent_for m k"
      using remind_one_other_key [of k a env m] r by auto
    with False cnt Cons.IH [of m'] ob show ?thesis by auto
  next
    case key: True
    show ?thesis
    proof (cases "h \<in> sent_for m k")
      case True
      with key remind_one_marked [of h m a env] assms r
      have "count_list evs (ReminderSent h) = 0" "h \<in> sent_for m' k"
        by auto
      with True cnt Cons.IH [of m'] show ?thesis by simp
    next
      case unmarked: False
      show ?thesis
      proof (cases "delivers env a h")
        case True
        with key unmarked remind_one_delivers [of h m a env] assms r
        have "count_list evs (ReminderSent h) = 1" "h \<in> sent_for m' k"
          by auto
        with True key unmarked cnt Cons.IH [of m'] ob show ?thesis by auto
      next
        case False
        with key unmarked remind_one_not_delivers [of h m a env] assms r
        have "count_list evs (ReminderSent h) = 0" "h \<notin> sent_for m' k"
          by auto
        with False key unmarked cnt Cons.IH [of m'] ob show ?thesis by auto
      qed
    qed
  qed
qed

text \<open>Markers are recorded late in an epoch: not before 18 hours after its start.\<close>

lemma in_window_seconds:
  assumes "h = 6 \<or> h = 1" "in_window h (hours_left_at env a)"
  shows "last_bid_at a + 64800 \<le> re_clock env"
proof -
  from assms have "hours_left_at env a \<le> 6"
    by (auto simp: in_window_def)
  then have "(of_int (seconds_until_expiry (re_clock env) (last_bid_at a)) :: rat) \<le> of_int 21600"
    by (simp add: hours_left_at_def)
  then have "seconds_until_expiry (re_clock env) (last_bid_at a) \<le> 21600"
    by (simp only: of_int_le_iff)
  then show ?thesis
    by (simp add: seconds_until_expiry_def BID_EXPIRY_HOURS_def)
qed

lemma remind_one_new_marker:
  assumes "x \<in> sent_for (fst (snd (remind_one env a m))) k" "x \<notin> sent_for m k"
  shows "k = (thread_id a, last_bid_at a) \<and> (x = 6 \<or> x = 1) \<and> delivers env a x"
proof -
  have key: "k = (thread_id a, last_bid_at a)"
    using assms remind_one_other_key [of k a env m] by auto
  have found: "thread_found env"
    using assms remind_one_not_found [of env a m k] by auto
  from assms key found show ?thesis
    by (auto simp: remind_one_found delivers_def in_window_def sent_for_def
        split: io.splits if_splits)
qed

lemma remind_one_behind:
  assumes "\<forall>tid L. sent_for m (tid, L) \<noteq> {} \<longrightarrow> L + 64800 \<le> now"
    and "re_clock env \<le> now"
  shows "\<forall>tid L. sent_for (fst (snd (remind_one env a m))) (tid, L) \<noteq> {} \<longrightarrow> L + 64800 \<le> now"
proof (intro allI impI)
  fix tid L
  assume ne: "sent_for (fst (snd (remind_one env a m))) (tid, L) \<noteq> {}"
  show "L + 64800 \<le> now"
  proof (cases "sent_for m (tid, L) = {}")
    case False
    with assms(1) show ?thesis by blast
  next
    case True
    from ne obtain x where "x \<in> sent_for (fst (snd (remind_one env a m))) (tid, L)" by blast
    with True remind_one_new_marker [of x env a m "(tid, L)"]
    have "(tid, L) = (thread_id a, last_bid_at a)" "x = 6 \<or> x = 1" "delivers env a x"
      by auto
    then have "L = last_bid_at a" "last_bid_at a + 64800 \<le> re_clock env"
      using in_window_seconds [of x env a] by (auto simp: delivers_def)
    with assms(2) show ?thesis by simp
  qed
qed

lemma reminder_run_behind:
  assumes "\<forall>tid L. sent_for m (tid, L) \<noteq> {} \<longrightarrow> L + 64800 \<le> now"
    and "\<forall>(env, b) \<in> set obs. re_clock env \<le> now"
  shows "\<forall>tid L. sent_for (snd (reminder_run obs m)) (tid, L) \<noteq> {} \<longrightarrow> L + 64800 \<le> now"
  using assms
proof (induction obs arbitrary: m)
  case Nil
  then show ?case by simp
next
  case (Cons ob obs)
  obtain env a where ob: "ob = (env, a)" by (cases ob)
  obtain evs m' esc where r: "remind_one env a m = (evs, m', esc)"
    by (cases "remind_one env a m") auto
  have "\<forall>tid L. sent_for m' (tid, L) \<noteq> {} \<longrightarrow> L + 64800 \<le> now"
    using remind_one_behind [of m now env a] Cons.prems ob r by auto
  moreover have "\<forall>(env, b) \<in> set obs. re_clock env \<le> now"
    using Cons.prems(2) by simp
  ultimately have "\<forall>tid L. sent_for (snd (reminder_run obs m')) (tid, L) \<noteq> {} \<longrightarrow> L + 64800 \<le> now"
    by (rule Cons.IH)
  then show ?case
    using ob r by (simp split: prod.splits)
qed

lemma new_epoch_unmarked:
  assumes "\<forall>(env, b) \<in> set obs. re_clock env \<le> now"
  shows "sent_for (snd (reminder_run obs Map.empty)) (tid, now) = {}"
proof (rule ccontr)
  assume "sent_for (snd (reminder_run obs Map.empty)) (tid, now) \<noteq> {}"
  moreover have "\<forall>tid L. sent_for (snd (reminder_run obs Map.empty)) (tid, L) \<noteq> {}
                   \<longrightarrow> L + 64800 \<le> now"
    using assms by (intro reminder_run_behind) (simp_all add: sent_for_def)
  ultimately have "now + 64800 \<le> now" by blast
  then show False by simp
qed


lemma reminder_run_append:
  "reminder_run (xs @ ys) m =
     (case reminder_run xs m of
        (evs, m') \<Rightarrow> (case reminder_run ys m' of (evs', m'') \<Rightarrow> (evs @ evs', m'')))"
  by (induction xs arbitrary: m) (auto split: prod.splits)

lemma reminder_loop_is_run:
  "\<exists>n. reminder_loop envs rows m =
         reminder_run (map (\<lambda>a. (envs (thread_id a), a)) (take n rows)) m"
proof (induction rows arbitrary: m)
  case Nil
  show ?case by simp
next
  case (Cons a rows)
  obtain evs m' escaped where r: "remind_one (envs (thread_id a)) a m = (evs, m', escaped)"
    by (cases "remind_one (envs (thread_id a)) a m") auto
  show ?case
  proof (cases escaped)
    case True
    with r have "reminder_loop envs (a # rows) m =
         reminder_run (map (\<lambda>a. (envs (thread_id a), a)) (take 1 (a # rows))) m"
      by simp
    then show ?thesis by blast
  next
    case False
    from Cons.IH [of m'] obtain n where
      "reminder_loop envs rows m' =
         reminder_run (map (\<lambda>a. (envs (thread_id a), a)) (take n rows)) m'"
      by blast
    with r False have "reminder_loop envs (a # rows) m =
         reminder_run (map (\<lambda>a. (envs (thread_id a), a)) (take (Suc n) (a # rows))) m"
      by (simp split: prod.splits)
    then show ?thesis by blast
  qed
qed

lemma reminder_sweeps_is_run:
  "\<exists>obs. reminder_sweeps sweeps m = reminder_run obs m \<and>
         (\<forall>(env, a) \<in> set obs. \<exists>(envs, l) \<in> set sweeps.
             a \<in> set l \<and> status a = Active \<and> env = envs (thread_id a))"
proof (induction sweeps arbitrary: m)
  case Nil
  have "reminder_sweeps [] m = reminder_run [] m" by simp
  then show ?case by fastforce
next
  case (Cons sw sweeps)
  obtain envs l where sw: "sw = (envs, l)" by (cases sw)
  from reminder_loop_is_run [of envs "get_active_auctions_for_reminders l" m]
  obtain n where
    one: "check_expiry_reminders envs l m =
            reminder_run (map (\<lambda>a. (envs (thread_id a), a))
              (take n (get_active_auctions_for_reminders l))) m"
    by (auto simp: check_expiry_reminders_def)
  define xs where "xs = map (\<lambda>a. (envs (thread_id a), a))
              (take n (get_active_auctions_for_reminders l))"
  obtain evs m' where rx: "reminder_run xs m = (evs, m')"
    by (cases "reminder_run xs m")
  from Cons.IH [of m'] obtain ys where
    rest: "reminder_sweeps sweeps m' = reminder_run ys m'"
    and ys: "\<forall>(env, a) \<in> set ys. \<exists>(envs, l) \<in> set sweeps.
             a \<in> set l \<and> status a = Active \<and> env = envs (thread_id a)"
    by blast
  have run: "reminder_sweeps (sw # sweeps) m = reminder_run (xs @ ys) m"
    using sw one rx rest by (simp add: xs_def [symmetric] reminder_run_append)
  have "\<forall>(env, a) \<in> set xs. a \<in> set l \<and> status a = Active \<and> env = envs (thread_id a)"
    by (auto simp: xs_def get_active_auctions_for_reminders_def dest: in_set_takeD)
  with ys sw have "\<forall>(env, a) \<in> set (xs @ ys). \<exists>(envs, l) \<in> set (sw # sweeps).
             a \<in> set l \<and> status a = Active \<and> env = envs (thread_id a)"
    by fastforce
  with run show ?case by blast
qed

section \<open>One row per thread\<close>

text \<open>
  Claim C9. No sequence of ledger operations ever produces two rows with the same
  \<open>thread_id\<close>. A \<open>create_auction\<close> or \<open>register_existing_auction\<close> for a
  \<open>thread_id\<close> that already has a row returns \<open>None\<close> and leaves the whole table as
  it was. When the thread has no row yet, the first call stores a row for it, every
  later create or register for that thread (with any other arguments) is rejected with
  the table unchanged, and reading the thread still gives the row of the first call.
\<close>

theorem duplicate_thread_insert_rejected:
  assumes "unique_threads l"
  shows "unique_threads (run_ops l ops) \<and>
    (tid \<in> thread_id ` set l \<longrightarrow>
       create_auction l now tid cid gid pname bid b bn = (None, l) \<and>
       register_existing_auction l tid cid gid pname bid ob bn created lb = (None, l)) \<and>
    (tid \<notin> thread_id ` set l \<longrightarrow>
       (\<forall>first l1. (first, l1) = create_auction l now tid cid gid pname bid b bn
            \<or> (first, l1) = register_existing_auction l tid cid gid pname bid ob bn created lb \<longrightarrow>
          (\<exists>row. first = Some row \<and> l1 = l @ [row] \<and> thread_id row = tid
                 \<and> current_bid row = bid \<and> status row = Active) \<and>
          create_auction l1 now' tid cid' gid' pname' bid' b' bn' = (None, l1) \<and>
          register_existing_auction l1 tid cid' gid' pname' bid' ob' bn' created' lb' = (None, l1) \<and>
          get_auction_by_thread l1 tid = first))"
proof (intro conjI impI allI)
  show "unique_threads (run_ops l ops)"
    using assms by (rule unique_threads_run_ops)
next
  assume "tid \<in> thread_id ` set l"
  then show "create_auction l now tid cid gid pname bid b bn = (None, l)"
    by (rule create_auction_duplicate)
next
  assume "tid \<in> thread_id ` set l"
  then show "register_existing_auction l tid cid gid pname bid ob bn created lb = (None, l)"
    by (rule register_existing_auction_duplicate)
next
  fix first l1
  assume fresh: "tid \<notin> thread_id ` set l"
    and c: "(first, l1) = create_auction l now tid cid gid pname bid b bn
            \<or> (first, l1) = register_existing_auction l tid cid gid pname bid ob bn created lb"
  from c fresh show "\<exists>row. first = Some row \<and> l1 = l @ [row] \<and> thread_id row = tid
                 \<and> current_bid row = bid \<and> status row = Active"
    by (auto simp: create_auction_fresh register_existing_auction_fresh)
  from c fresh have in1: "tid \<in> thread_id ` set l1" and g: "get_auction_by_thread l1 tid = first"
    by (auto simp: create_auction_fresh register_existing_auction_fresh
        get_auction_by_thread_append_fresh)
  show "create_auction l1 now' tid cid' gid' pname' bid' b' bn' = (None, l1)"
    using in1 by (rule create_auction_duplicate)
  show "register_existing_auction l1 tid cid' gid' pname' bid' ob' bn' created' lb' = (None, l1)"
    using in1 by (rule register_existing_auction_duplicate)
  show "get_auction_by_thread l1 tid = first" by (rule g)
qed

theorem duplicate_thread_insert_rejected_witness:
  "unique_threads [] \<and> (7::int) \<notin> thread_id ` set [] \<and>
   create_auction [] 1000 7 1 2 ''Ohtani'' 100 11 ''A'' =
     (Some \<lparr>thread_id = 7, channel_id = 1, guild_id = 2, player_name = ''Ohtani'',
            current_bid = 100, current_bidder_id = Some 11, current_bidder_name = Some ''A'',
            created_at = 1000, last_bid_at = 1000, status = Active\<rparr>,
      [\<lparr>thread_id = 7, channel_id = 1, guild_id = 2, player_name = ''Ohtani'',
        current_bid = 100, current_bidder_id = Some 11, current_bidder_name = Some ''A'',
        created_at = 1000, last_bid_at = 1000, status = Active\<rparr>]) \<and>
   create_auction
     [\<lparr>thread_id = 7, channel_id = 1, guild_id = 2, player_name = ''Ohtani'',
       current_bid = 100, current_bidder_id = Some 11, current_bidder_name = Some ''A'',
       created_at = 1000, last_bid_at = 1000, status = Active\<rparr>]
     2000 7 3 4 ''Judge'' 5 12 ''B'' =
     (None,
      [\<lparr>thread_id = 7, channel_id = 1, guild_id = 2, player_name = ''Ohtani'',
        current_bid = 100, current_bidder_id = Some 11, current_bidder_name = Some ''A'',
        created_at = 1000, last_bid_at = 1000, status = Active\<rparr>]) \<and>
   unique_threads (run_ops []
     [Create 1000 7 1 2 ''Ohtani'' 100 11 ''A'', Create 2000 7 3 4 ''Judge'' 5 12 ''B''])"
  using duplicate_thread_insert_rejected [of "[]"
      "[Create 1000 7 1 2 ''Ohtani'' 100 11 ''A'', Create 2000 7 3 4 ''Judge'' 5 12 ''B'']"
      7 1000 1 2 "''Ohtani''" 100 11 "''A''" "None" 0 0 2000 3 4 "''Judge''" 5 12 "''B''"
      None 0 0]
    duplicate_thread_insert_rejected [of
      "[\<lparr>thread_id = 7, channel_id = 1, guild_id = 2, player_name = ''Ohtani'',
         current_bid = 100, current_bidder_id = Some 11, current_bidder_name = Some ''A'',
         created_at = 1000, last_bid_at = 1000, status = Active\<rparr>]"
      "[]" 7 2000 3 4 "''Judge''" 5 12 "''B''" "None" 0 0]
  by (simp add: unique_threads_def create_auction_def insert_row_def get_auction_by_thread_def)

section \<open>Bids only go up\<close>

text \<open>
  Claim C7 fails as stated, in two ways. First, two \<open>place_bid\<close> calls on one
  auction that both read \<open>current_bid = 100\<close> before either writes are both
  accepted (each returns a row), and the table goes from 300 to 250: \<open>current_bid\<close>
  decreases, and the accepted amounts 300, 250 are not increasing. Second, in a plain
  sequence of calls on a completed auction, \<open>place_bid\<close> returns a row for 300 and
  then for 200, while the row keeps \<open>current_bid = 180\<close> and bidder 13: the accepted
  amounts are not increasing, and the bidder of the row is not the bidder of the bid.
\<close>

theorem accepted_bids_not_increasing:
  "run_two
     \<lparr>bc_thread = 7, bc_amount = 300, bc_bidder_id = 21, bc_bidder_name = ''C''\<rparr>
     \<lparr>bc_thread = 7, bc_amount = 250, bc_bidder_id = 22, bc_bidder_name = ''D''\<rparr>
     [(True, 2000), (False, 2001), (False, 2002), (False, 2002)]
     (AtRead, AtRead,
      [\<lparr>thread_id = 7, channel_id = 1, guild_id = 2, player_name = ''Ohtani'',
       current_bid = 100, current_bidder_id = Some 11, current_bidder_name = Some ''A'',
       created_at = 1000, last_bid_at = 1000, status = Active\<rparr>])
   = (Finished (Some
        \<lparr>thread_id = 7, channel_id = 1, guild_id = 2, player_name = ''Ohtani'',
       current_bid = 300, current_bidder_id = Some 21, current_bidder_name = Some ''C'',
       created_at = 1000, last_bid_at = 2001, status = Active\<rparr>),
      AtWrite 2000,
      [\<lparr>thread_id = 7, channel_id = 1, guild_id = 2, player_name = ''Ohtani'',
       current_bid = 300, current_bidder_id = Some 21, current_bidder_name = Some ''C'',
       created_at = 1000, last_bid_at = 2001, status = Active\<rparr>]) \<and>
   run_two
     \<lparr>bc_thread = 7, bc_amount = 300, bc_bidder_id = 21, bc_bidder_name = ''C''\<rparr>
     \<lparr>bc_thread = 7, bc_amount = 250, bc_bidder_id = 22, bc_bidder_name = ''D''\<rparr>
     [(True, 2000), (False, 2001), (False, 2002), (False, 2002), (True, 2003), (True, 2003)]
     (AtRead, AtRead,
      [\<lparr>thread_id = 7, channel_id = 1, guild_id = 2, player_name = ''Ohtani'',
       current_bid = 100, current_bidder_id = Some 11, current_bidder_name = Some ''A'',
       created_at = 1000, last_bid_at = 1000, status = Active\<rparr>])
   = (Finished (Some
        \<lparr>thread_id = 7, channel_id = 1, guild_id = 2, player_name = ''Ohtani'',
       current_bid = 300, current_bidder_id = Some 21, current_bidder_name = Some ''C'',
       created_at = 1000, last_bid_at = 2001, status = Active\<rparr>),
      Finished (Some
        \<lparr>thread_id = 7, channel_id = 1, guild_id = 2, player_name = ''Ohtani'',
       current_bid = 250, current_bidder_id = Some 22, current_bidder_name = Some ''D'',
       created_at = 1000, last_bid_at = 2000, status = Active\<rparr>),
      [\<lparr>thread_id = 7, channel_id = 1, guild_id = 2, player_name = ''Ohtani'',
       current_bid = 250, current_bidder_id = Some 22, current_bidder_name = Some ''D'',
       created_at = 1000, last_bid_at = 2000, status = Active\<rparr>]) \<and>
   place_bid
     [\<lparr>thread_id = 7, channel_id = 1, guild_id = 2, player_name = ''Ohtani'',
       current_bid = 180, current_bidder_id = Some 13, current_bidder_name = Some ''C'',
       created_at = 1000, last_bid_at = 1040, status = Completed\<rparr>] 90000 7 300 14 ''D''
   = (Some \<lparr>thread_id = 7, channel_id = 1, guild_id = 2, player_name = ''Ohtani'',
       current_bid = 180, current_bidder_id = Some 13, current_bidder_name = Some ''C'',
       created_at = 1000, last_bid_at = 1040, status = Completed\<rparr>,
      [\<lparr>thread_id = 7, channel_id = 1, guild_id = 2, player_name = ''Ohtani'',
       current_bid = 180, current_bidder_id = Some 13, current_bidder_name = Some ''C'',
       created_at = 1000, last_bid_at = 1040, status = Completed\<rparr>]) \<and>
   accepted_bids
     [\<lparr>thread_id = 7, channel_id = 1, guild_id = 2, player_name = ''Ohtani'',
       current_bid = 180, current_bidder_id = Some 13, current_bidder_name = Some ''C'',
       created_at = 1000, last_bid_at = 1040, status = Completed\<rparr>]
     [PlaceBid 90000 7 300 14 ''D'', PlaceBid 90010 7 200 15 ''E''] 7
   = [(300, 14), (200, 15)] \<and>
   get_auction_by_thread
     (run_ops
        [\<lparr>thread_id = 7, channel_id = 1, guild_id = 2, player_name = ''Ohtani'',
       current_bid = 180, current_bidder_id = Some 13, current_bidder_name = Some ''C'',
       created_at = 1000, last_bid_at = 1040, status = Completed\<rparr>]
        [PlaceBid 90000 7 300 14 ''D'', PlaceBid 90010 7 200 15 ''E'']) 7
   = Some \<lparr>thread_id = 7, channel_id = 1, guild_id = 2, player_name = ''Ohtani'',
       current_bid = 180, current_bidder_id = Some 13, current_bidder_name = Some ''C'',
       created_at = 1000, last_bid_at = 1040, status = Completed\<rparr>"
  by (simp add: place_bid_check_def place_bid_update_def get_auction_by_thread_def
      place_bid_def run_ops_def Let_def)

text \<open>
  Claim C7 as amended. Take a table with one row per thread, a thread \<open>t\<close> with row
  \<open>a\<close>, and any sequence of ledger operations (create, register, place_bid,
  complete_auction, on any threads) in which every operation runs with no other write
  between its read and its write. The thread still has a row \<open>a'\<close> afterwards, and
  \<open>current_bid\<close> is never lowered, by the sequence or by any single operation. As
  long as the auction is active (the row is still active after the sequence), the
  amounts of the accepted bids on \<open>t\<close>, in order and preceded by the starting
  \<open>current_bid\<close>, are strictly increasing; \<open>current_bid a'\<close> is the last of
  them; and \<open>current_bidder_id a'\<close> is the bidder of the last accepted bid (the
  starting bidder when there is none). \<open>complete_auction\<close> changes nothing but
  \<open>status\<close>: the row of the completed thread becomes the same row with status
  completed, every other row is read back as before. A bid is accepted when
  \<open>place_bid\<close> returns a row; a bid that \<open>bid_command\<close> accepts is one, and it
  is the \<open>place_bid\<close> of the command that changes the table.
\<close>

theorem bids_increase_while_active:
  assumes "unique_threads l" and "get_auction_by_thread l t = Some a"
  shows "(\<exists>a'. get_auction_by_thread (run_ops l ops) t = Some a' \<and>
            current_bid a \<le> current_bid a' \<and>
            (status a' = Active \<longrightarrow>
               sorted_wrt (<) (current_bid a # map fst (accepted_bids l ops t)) \<and>
               current_bid a' = last (current_bid a # map fst (accepted_bids l ops t)) \<and>
               current_bidder_id a' =
                 (if accepted_bids l ops t = [] then current_bidder_id a
                  else Some (snd (last (accepted_bids l ops t)))))) \<and>
         (\<exists>a1. get_auction_by_thread (apply_op l x) t = Some a1 \<and>
            current_bid a \<le> current_bid a1) \<and>
         get_auction_by_thread (snd (complete_auction l tid)) t =
           Some (if tid = t \<and> status a = Active then a\<lparr>status := Completed\<rparr> else a) \<and>
         (accepted (fst (bid_command acid now orc l ia amount)) \<longrightarrow>
            (\<exists>th. ia_channel ia = Some th \<and>
               snd (bid_command acid now orc l ia amount) =
                 apply_op l (PlaceBid now th amount (ia_user ia) (ia_display_name ia)) \<and>
               accepted_bids l [PlaceBid now th amount (ia_user ia) (ia_display_name ia)] th =
                 [(amount, ia_user ia)]))"
proof (intro conjI impI)
  assume "accepted (fst (bid_command acid now orc l ia amount))"
  then show "\<exists>th. ia_channel ia = Some th \<and>
               snd (bid_command acid now orc l ia amount) =
                 apply_op l (PlaceBid now th amount (ia_user ia) (ia_display_name ia)) \<and>
               accepted_bids l [PlaceBid now th amount (ia_user ia) (ia_display_name ia)] th =
                 [(amount, ia_user ia)]"
    by (rule bid_command_accepted_is_accepted_bid)
next
  from run_ops_never_lowers [OF assms, of ops] obtain a' where
    fin: "get_auction_by_thread (run_ops l ops) t = Some a'"
    and le: "current_bid a \<le> current_bid a'"
    by blast
  have "status a' = Active \<longrightarrow>
               sorted_wrt (<) (current_bid a # map fst (accepted_bids l ops t)) \<and>
               current_bid a' = last (current_bid a # map fst (accepted_bids l ops t)) \<and>
               current_bidder_id a' =
                 (if accepted_bids l ops t = [] then current_bidder_id a
                  else Some (snd (last (accepted_bids l ops t))))"
    using run_ops_bids [OF assms fin] by blast
  with fin le
  show "\<exists>a'. get_auction_by_thread (run_ops l ops) t = Some a' \<and>
            current_bid a \<le> current_bid a' \<and>
            (status a' = Active \<longrightarrow>
               sorted_wrt (<) (current_bid a # map fst (accepted_bids l ops t)) \<and>
               current_bid a' = last (current_bid a # map fst (accepted_bids l ops t)) \<and>
               current_bidder_id a' =
                 (if accepted_bids l ops t = [] then current_bidder_id a
                  else Some (snd (last (accepted_bids l ops t)))))"
    by blast
next
  from assms show "\<exists>a1. get_auction_by_thread (apply_op l x) t = Some a1 \<and>
            current_bid a \<le> current_bid a1"
    by (rule apply_op_never_lowers)
next
  have "thread_id a = t"
    using assms(2) by (simp add: get_auction_by_thread_SomeD)
  with assms(2)
  show "get_auction_by_thread (snd (complete_auction l tid)) t =
           Some (if tid = t \<and> status a = Active then a\<lparr>status := Completed\<rparr> else a)"
    by (auto simp: complete_auction_row)
qed

theorem bids_increase_while_active_witness:
  "unique_threads
     [\<lparr>thread_id = 7, channel_id = 1, guild_id = 2, player_name = ''Ohtani'',
       current_bid = 100, current_bidder_id = Some 11, current_bidder_name = Some ''A'',
       created_at = 1000, last_bid_at = 1000, status = Active\<rparr>] \<and>
   get_auction_by_thread
     [\<lparr>thread_id = 7, channel_id = 1, guild_id = 2, player_name = ''Ohtani'',
       current_bid = 100, current_bidder_id = Some 11, current_bidder_name = Some ''A'',
       created_at = 1000, last_bid_at = 1000, status = Active\<rparr>] 7
     = Some \<lparr>thread_id = 7, channel_id = 1, guild_id = 2, player_name = ''Ohtani'',
       current_bid = 100, current_bidder_id = Some 11, current_bidder_name = Some ''A'',
       created_at = 1000, last_bid_at = 1000, status = Active\<rparr> \<and>
   accepted_bids
     [\<lparr>thread_id = 7, channel_id = 1, guild_id = 2, player_name = ''Ohtani'',
       current_bid = 100, current_bidder_id = Some 11, current_bidder_name = Some ''A'',
       created_at = 1000, last_bid_at = 1000, status = Active\<rparr>]
     [PlaceBid 1010 7 150 12 ''B'', PlaceBid 1020 7 120 13 ''C'', PlaceBid 1030 7 150 12 ''B'',
      PlaceBid 1040 7 180 13 ''C''] 7
     = [(150, 12), (180, 13)] \<and>
   get_auction_by_thread
     (run_ops
       [\<lparr>thread_id = 7, channel_id = 1, guild_id = 2, player_name = ''Ohtani'',
       current_bid = 100, current_bidder_id = Some 11, current_bidder_name = Some ''A'',
       created_at = 1000, last_bid_at = 1000, status = Active\<rparr>]
       [PlaceBid 1010 7 150 12 ''B'', PlaceBid 1020 7 120 13 ''C'', PlaceBid 1030 7 150 12 ''B'',
      PlaceBid 1040 7 180 13 ''C'']) 7
     = Some \<lparr>thread_id = 7, channel_id = 1, guild_id = 2, player_name = ''Ohtani'',
       current_bid = 180, current_bidder_id = Some 13, current_bidder_name = Some ''C'',
       created_at = 1000, last_bid_at = 1040, status = Active\<rparr> \<and>
   get_auction_by_thread
     (apply_op
       [\<lparr>thread_id = 7, channel_id = 1, guild_id = 2, player_name = ''Ohtani'',
       current_bid = 100, current_bidder_id = Some 11, current_bidder_name = Some ''A'',
       created_at = 1000, last_bid_at = 1000, status = Active\<rparr>]
       (Complete 7)) 7
     = Some \<lparr>thread_id = 7, channel_id = 1, guild_id = 2, player_name = ''Ohtani'',
       current_bid = 100, current_bidder_id = Some 11, current_bidder_name = Some ''A'',
       created_at = 1000, last_bid_at = 1000, status = Completed\<rparr> \<and>
   bid_command None 1010 (Some [\<lparr>pr_id = Some 12, pr_balance = Some 1000\<rparr>])
     [\<lparr>thread_id = 7, channel_id = 1, guild_id = 2, player_name = ''Ohtani'',
       current_bid = 100, current_bidder_id = Some 11, current_bidder_name = Some ''A'',
       created_at = 1000, last_bid_at = 1000, status = Active\<rparr>]
     \<lparr>ia_guild = Some 2, ia_channel = Some 7, ia_user = 12, ia_display_name = ''B''\<rparr> 150
     = (NewHighBid \<lparr>thread_id = 7, channel_id = 1, guild_id = 2, player_name = ''Ohtani'',
       current_bid = 150, current_bidder_id = Some 12, current_bidder_name = Some ''B'',
       created_at = 1000, last_bid_at = 1010, status = Active\<rparr>,
        [\<lparr>thread_id = 7, channel_id = 1, guild_id = 2, player_name = ''Ohtani'',
       current_bid = 150, current_bidder_id = Some 12, current_bidder_name = Some ''B'',
       created_at = 1000, last_bid_at = 1010, status = Active\<rparr>])"
  using bids_increase_while_active
    [where l = "[\<lparr>thread_id = 7, channel_id = 1, guild_id = 2, player_name = ''Ohtani'',
       current_bid = 100, current_bidder_id = Some 11, current_bidder_name = Some ''A'',
       created_at = 1000, last_bid_at = 1000, status = Active\<rparr>]"
     and t = 7
     and a = "\<lparr>thread_id = 7, channel_id = 1, guild_id = 2, player_name = ''Ohtani'',
       current_bid = 100, current_bidder_id = Some 11, current_bidder_name = Some ''A'',
       created_at = 1000, last_bid_at = 1000, status = Active\<rparr>"
     and ops = "[PlaceBid 1010 7 150 12 ''B'', PlaceBid 1020 7 120 13 ''C'', PlaceBid 1030 7 150 12 ''B'',
      PlaceBid 1040 7 180 13 ''C'']"
     and x = "Complete 7" and tid = 7 and acid = None and now = 1010
     and orc = "(Some [\<lparr>pr_id = Some 12, pr_balance = Some 1000\<rparr>])"
     and ia = "\<lparr>ia_guild = Some 2, ia_channel = Some 7, ia_user = 12, ia_display_name = ''B''\<rparr>"
     and amount = 150]
  by (simp add: unique_threads_def run_ops_def place_bid_def place_bid_update_def
      get_auction_by_thread_def complete_auction_def complete_update_def Let_def
      bid_command_def get_pom_balance_sync_def cell_balance_def
      get_committed_pom_for_user_def)

section \<open>\<open>place_bid\<close> on a completed auction\<close>

text \<open>
  Claim C4, at the input where the code departs from it. \<open>place_bid\<close> on a
  completed auction with an amount above \<open>current_bid\<close> leaves the table as it was,
  but it does not return \<open>None\<close>: the UPDATE matches no row, and the closing
  \<open>get_auction_by_thread\<close> has no condition on \<open>status\<close>, so the untouched
  completed row comes back as if the bid had been placed. (For the other two cases
  of the claim, \<open>place_bid_None_iff\<close> and \<open>place_bid_None_unchanged\<close> above: the
  result is \<open>None\<close> exactly when there is no row or the amount is not above
  \<open>current_bid\<close>, and then the table is unchanged.)
\<close>

theorem place_bid_completed_returns_row:
  assumes "unique_threads l" and "get_auction_by_thread l tid = Some a"
    and "status a = Completed" and "current_bid a < amount"
  shows "place_bid l now tid amount b bn = (Some a, l)"
proof -
  from assms(3) have na: "status a \<noteq> Active" by simp
  have "place_bid_update l tid amount b bn now = l"
    using assms(1,2) na by (rule place_bid_update_noop)
  with assms(2,4) show ?thesis
    by (simp add: place_bid_def Let_def)
qed

theorem place_bid_completed_returns_row_witness:
  "unique_threads
     [\<lparr>thread_id = 7, channel_id = 1, guild_id = 2, player_name = ''Ohtani'',
       current_bid = 100, current_bidder_id = Some 11, current_bidder_name = Some ''A'',
       created_at = 1000, last_bid_at = 1000, status = Completed\<rparr>] \<and>
   place_bid
     [\<lparr>thread_id = 7, channel_id = 1, guild_id = 2, player_name = ''Ohtani'',
       current_bid = 100, current_bidder_id = Some 11, current_bidder_name = Some ''A'',
       created_at = 1000, last_bid_at = 1000, status = Completed\<rparr>]
     90000 7 150 12 ''B'' =
     (Some \<lparr>thread_id = 7, channel_id = 1, guild_id = 2, player_name = ''Ohtani'',
       current_bid = 100, current_bidder_id = Some 11, current_bidder_name = Some ''A'',
       created_at = 1000, last_bid_at = 1000, status = Completed\<rparr>,
      [\<lparr>thread_id = 7, channel_id = 1, guild_id = 2, player_name = ''Ohtani'',
       current_bid = 100, current_bidder_id = Some 11, current_bidder_name = Some ''A'',
       created_at = 1000, last_bid_at = 1000, status = Completed\<rparr>])"
  using place_bid_completed_returns_row
    [of "[\<lparr>thread_id = 7, channel_id = 1, guild_id = 2, player_name = ''Ohtani'',
       current_bid = 100, current_bidder_id = Some 11, current_bidder_name = Some ''A'',
       created_at = 1000, last_bid_at = 1000, status = Completed\<rparr>]" 7
      "\<lparr>thread_id = 7, channel_id = 1, guild_id = 2, player_name = ''Ohtani'',
       current_bid = 100, current_bidder_id = Some 11, current_bidder_name = Some ''A'',
       created_at = 1000, last_bid_at = 1000, status = Completed\<rparr>" 150 90000 12 "''B''"]
  by (simp add: unique_threads_def get_auction_by_thread_def)

section \<open>What the UPDATE of \<open>place_bid\<close> re-checks\<close>

text \<open>
  Claim C3 fails as stated. Two calls read the same row (current bid 100) before
  either writes. The call bidding 200 writes and returns; the table then holds 200.
  The call bidding 150, whose amount was compared with the stale 100, writes next:
  its UPDATE is not refused, and the table ends with \<open>current_bid = 150\<close>, below the
  committed 200.
\<close>

theorem interleaved_lower_bid_overwrites:
  "run_two
     \<lparr>bc_thread = 7, bc_amount = 200, bc_bidder_id = 11, bc_bidder_name = ''A''\<rparr>
     \<lparr>bc_thread = 7, bc_amount = 150, bc_bidder_id = 12, bc_bidder_name = ''B''\<rparr>
     [(False, 1010), (True, 1010), (False, 1011), (False, 1011)]
     (AtRead, AtRead,
      [\<lparr>thread_id = 7, channel_id = 1, guild_id = 2, player_name = ''Ohtani'',
        current_bid = 100, current_bidder_id = Some 10, current_bidder_name = Some ''Z'',
        created_at = 1000, last_bid_at = 1000, status = Active\<rparr>])
   = (Finished (Some
        \<lparr>thread_id = 7, channel_id = 1, guild_id = 2, player_name = ''Ohtani'',
         current_bid = 200, current_bidder_id = Some 11, current_bidder_name = Some ''A'',
         created_at = 1000, last_bid_at = 1010, status = Active\<rparr>),
      AtWrite 1010,
      [\<lparr>thread_id = 7, channel_id = 1, guild_id = 2, player_name = ''Ohtani'',
        current_bid = 200, current_bidder_id = Some 11, current_bidder_name = Some ''A'',
        created_at = 1000, last_bid_at = 1010, status = Active\<rparr>]) \<and>
   run_two
     \<lparr>bc_thread = 7, bc_amount = 200, bc_bidder_id = 11, bc_bidder_name = ''A''\<rparr>
     \<lparr>bc_thread = 7, bc_amount = 150, bc_bidder_id = 12, bc_bidder_name = ''B''\<rparr>
     [(False, 1010), (True, 1010), (False, 1011), (False, 1011), (True, 1012), (True, 1012)]
     (AtRead, AtRead,
      [\<lparr>thread_id = 7, channel_id = 1, guild_id = 2, player_name = ''Ohtani'',
        current_bid = 100, current_bidder_id = Some 10, current_bidder_name = Some ''Z'',
        created_at = 1000, last_bid_at = 1000, status = Active\<rparr>])
   = (Finished (Some
        \<lparr>thread_id = 7, channel_id = 1, guild_id = 2, player_name = ''Ohtani'',
         current_bid = 200, current_bidder_id = Some 11, current_bidder_name = Some ''A'',
         created_at = 1000, last_bid_at = 1010, status = Active\<rparr>),
      Finished (Some
        \<lparr>thread_id = 7, channel_id = 1, guild_id = 2, player_name = ''Ohtani'',
         current_bid = 150, current_bidder_id = Some 12, current_bidder_name = Some ''B'',
         created_at = 1000, last_bid_at = 1010, status = Active\<rparr>),
      [\<lparr>thread_id = 7, channel_id = 1, guild_id = 2, player_name = ''Ohtani'',
        current_bid = 150, current_bidder_id = Some 12, current_bidder_name = Some ''B'',
        created_at = 1000, last_bid_at = 1010, status = Active\<rparr>])"
  by (simp add: place_bid_check_def place_bid_update_def get_auction_by_thread_def)

text \<open>
  Claim C3 as amended. At write time the UPDATE of \<open>place_bid\<close> checks the thread
  and \<open>status = 'active'\<close> only: on an active row it stores the call's amount
  whatever the row's \<open>current_bid\<close> is by then, and a row that is not active is left
  alone. The comparison of the amount with \<open>current_bid\<close> is made once, on the row
  read at the start of the call. A call whose three stretches run with no other write
  in between is \<open>place_bid\<close>, and that never lowers \<open>current_bid\<close>.
\<close>

theorem place_bid_write_checks_status_only:
  assumes "get_auction_by_thread l (bc_thread c) = Some a"
  shows "get_auction_by_thread (snd (bid_step clock c (AtWrite now, l))) (bc_thread c) =
           Some (if status a = Active
                 then a\<lparr>current_bid := bc_amount c, current_bidder_id := Some (bc_bidder_id c),
                        current_bidder_name := Some (bc_bidder_name c), last_bid_at := now\<rparr>
                 else a) \<and>
         bid_step c3 c (bid_step c2 c (bid_step now c (AtRead, l))) =
           (Finished (fst (place_bid l now (bc_thread c) (bc_amount c) (bc_bidder_id c)
                             (bc_bidder_name c))),
            snd (place_bid l now (bc_thread c) (bc_amount c) (bc_bidder_id c) (bc_bidder_name c))) \<and>
         (\<exists>a'. get_auction_by_thread
                 (snd (place_bid l now (bc_thread c) (bc_amount c) (bc_bidder_id c)
                         (bc_bidder_name c))) (bc_thread c) = Some a' \<and>
               current_bid a \<le> current_bid a')"
proof (intro conjI)
  have "thread_id a = bc_thread c"
    using assms by (simp add: get_auction_by_thread_SomeD)
  with assms
  show "get_auction_by_thread (snd (bid_step clock c (AtWrite now, l))) (bc_thread c) =
           Some (if status a = Active
                 then a\<lparr>current_bid := bc_amount c, current_bidder_id := Some (bc_bidder_id c),
                        current_bidder_name := Some (bc_bidder_name c), last_bid_at := now\<rparr>
                 else a)"
    by (simp add: get_auction_by_thread_place_bid_update)
next
  show "bid_step c3 c (bid_step c2 c (bid_step now c (AtRead, l))) =
           (Finished (fst (place_bid l now (bc_thread c) (bc_amount c) (bc_bidder_id c)
                             (bc_bidder_name c))),
            snd (place_bid l now (bc_thread c) (bc_amount c) (bc_bidder_id c) (bc_bidder_name c)))"
    by (rule bid_steps_place_bid)
next
  from assms
  show "\<exists>a'. get_auction_by_thread
                 (snd (place_bid l now (bc_thread c) (bc_amount c) (bc_bidder_id c)
                         (bc_bidder_name c))) (bc_thread c) = Some a' \<and>
               current_bid a \<le> current_bid a'"
    by (rule place_bid_never_lowers)
qed

theorem place_bid_write_checks_status_only_witness:
  "get_auction_by_thread
     [\<lparr>thread_id = 7, channel_id = 1, guild_id = 2, player_name = ''Ohtani'',
       current_bid = 200, current_bidder_id = Some 11, current_bidder_name = Some ''A'',
       created_at = 1000, last_bid_at = 1010, status = Active\<rparr>] 7
     = Some \<lparr>thread_id = 7, channel_id = 1, guild_id = 2, player_name = ''Ohtani'',
       current_bid = 200, current_bidder_id = Some 11, current_bidder_name = Some ''A'',
       created_at = 1000, last_bid_at = 1010, status = Active\<rparr> \<and>
   get_auction_by_thread (snd (bid_step 1012
       \<lparr>bc_thread = 7, bc_amount = 150, bc_bidder_id = 12, bc_bidder_name = ''B''\<rparr>
       (AtWrite 1010,
        [\<lparr>thread_id = 7, channel_id = 1, guild_id = 2, player_name = ''Ohtani'',
          current_bid = 200, current_bidder_id = Some 11, current_bidder_name = Some ''A'',
          created_at = 1000, last_bid_at = 1010, status = Active\<rparr>]))) 7
     = Some \<lparr>thread_id = 7, channel_id = 1, guild_id = 2, player_name = ''Ohtani'',
         current_bid = 150, current_bidder_id = Some 12, current_bidder_name = Some ''B'',
         created_at = 1000, last_bid_at = 1010, status = Active\<rparr> \<and>
   place_bid
     [\<lparr>thread_id = 7, channel_id = 1, guild_id = 2, player_name = ''Ohtani'',
       current_bid = 200, current_bidder_id = Some 11, current_bidder_name = Some ''A'',
       created_at = 1000, last_bid_at = 1010, status = Active\<rparr>] 1012 7 150 12 ''B''
     = (None,
        [\<lparr>thread_id = 7, channel_id = 1, guild_id = 2, player_name = ''Ohtani'',
          current_bid = 200, current_bidder_id = Some 11, current_bidder_name = Some ''A'',
          created_at = 1000, last_bid_at = 1010, status = Active\<rparr>])"
  using place_bid_write_checks_status_only
    [of "[\<lparr>thread_id = 7, channel_id = 1, guild_id = 2, player_name = ''Ohtani'',
       current_bid = 200, current_bidder_id = Some 11, current_bidder_name = Some ''A'',
       created_at = 1000, last_bid_at = 1010, status = Active\<rparr>]"
      "\<lparr>bc_thread = 7, bc_amount = 150, bc_bidder_id = 12, bc_bidder_name = ''B''\<rparr>"
      "\<lparr>thread_id = 7, channel_id = 1, guild_id = 2, player_name = ''Ohtani'',
       current_bid = 200, current_bidder_id = Some 11, current_bidder_name = Some ''A'',
       created_at = 1000, last_bid_at = 1010, status = Active\<rparr>" 1012 1010 1012 1012]
  by (simp add: get_auction_by_thread_def place_bid_update_def place_bid_def)

section \<open>Completing twice\<close>




section \<open>The budget check of a bid\<close>

text \<open>
  Claim C5. \<open>bid_command\<close> accepts a bid of a user only if the sheet could be read at
  that moment, the user has a row in it, and the amount is at most that balance minus
  the user's commitment, the sum of \<open>current_bid\<close> over the active auctions the
  user leads. The auction bid on is not among them: the own-bid check has already
  turned the leader away, so with one row per thread the commitment equals the sum
  taken over the other threads only. A bid that is not accepted leaves the table
  unchanged; in particular one whose amount exceeds balance minus commitment is never
  accepted. (Scenario 2 of the spec is the witness: balance 500, a first bid of 500 is
  accepted, a bid of 100 on a second auction is answered over budget with available 0.)
\<close>

theorem bid_within_available_balance:
  assumes "unique_threads l"
  shows "(accepted (fst (bid_command acid now orc l ia amount)) \<longrightarrow>
            (\<exists>rows balance tid a. orc = Some rows \<and>
               get_pom_balance_sync rows (ia_user ia) = Some balance \<and>
               ia_channel ia = Some tid \<and> get_auction_by_thread l tid = Some a \<and>
               current_bidder_id a \<noteq> Some (ia_user ia) \<and>
               amount \<le> balance - get_committed_pom_for_user l (ia_user ia) \<and>
               get_committed_pom_for_user l (ia_user ia) =
                 sum_list (map current_bid
                   (filter (\<lambda>r. status r = Active \<and> current_bidder_id r = Some (ia_user ia)
                                \<and> thread_id r \<noteq> tid) l)))) \<and>
         (\<not> accepted (fst (bid_command acid now orc l ia amount)) \<longrightarrow>
            snd (bid_command acid now orc l ia amount) = l) \<and>
         (get_pom_balance_sync rows (ia_user ia) = Some balance \<and>
          balance - get_committed_pom_for_user l (ia_user ia) < amount \<longrightarrow>
            \<not> accepted (fst (bid_command acid now (Some rows) l ia amount)) \<and>
            snd (bid_command acid now (Some rows) l ia amount) = l)"
proof (intro conjI impI)
  assume "accepted (fst (bid_command acid now orc l ia amount))"
  from bid_command_accepted_checks [OF this] obtain rows balance tid a where
    f: "orc = Some rows" "get_pom_balance_sync rows (ia_user ia) = Some balance"
       "ia_channel ia = Some tid" "get_auction_by_thread l tid = Some a"
       "current_bidder_id a \<noteq> Some (ia_user ia)"
       "amount \<le> balance - get_committed_pom_for_user l (ia_user ia)"
    by blast
  from committed_excludes_thread [OF assms f(4,5)] f
  show "\<exists>rows balance tid a. orc = Some rows \<and>
               get_pom_balance_sync rows (ia_user ia) = Some balance \<and>
               ia_channel ia = Some tid \<and> get_auction_by_thread l tid = Some a \<and>
               current_bidder_id a \<noteq> Some (ia_user ia) \<and>
               amount \<le> balance - get_committed_pom_for_user l (ia_user ia) \<and>
               get_committed_pom_for_user l (ia_user ia) =
                 sum_list (map current_bid
                   (filter (\<lambda>r. status r = Active \<and> current_bidder_id r = Some (ia_user ia)
                                \<and> thread_id r \<noteq> tid) l))"
    by blast
next
  assume "\<not> accepted (fst (bid_command acid now orc l ia amount))"
  then show "snd (bid_command acid now orc l ia amount) = l"
    by (rule bid_command_rejected_unchanged)
next
  assume over: "get_pom_balance_sync rows (ia_user ia) = Some balance \<and>
          balance - get_committed_pom_for_user l (ia_user ia) < amount"
  show na: "\<not> accepted (fst (bid_command acid now (Some rows) l ia amount))"
  proof
    assume "accepted (fst (bid_command acid now (Some rows) l ia amount))"
    from bid_command_accepted_checks [OF this] over show False by auto
  qed
  then show "snd (bid_command acid now (Some rows) l ia amount) = l"
    by (rule bid_command_rejected_unchanged)
qed

theorem bid_within_available_balance_witness:
  "unique_threads
     [\<lparr>thread_id = 7, channel_id = 1, guild_id = 2, player_name = ''Ohtani'',
       current_bid = 100, current_bidder_id = Some 10, current_bidder_name = Some ''Z'',
       created_at = 1000, last_bid_at = 1000, status = Active\<rparr>,
      \<lparr>thread_id = 8, channel_id = 1, guild_id = 2, player_name = ''Judge'',
       current_bid = 50, current_bidder_id = Some 12, current_bidder_name = Some ''B'',
       created_at = 1500, last_bid_at = 1500, status = Active\<rparr>] \<and>
   get_pom_balance_sync [\<lparr>pr_id = Some 11, pr_balance = Some 500\<rparr>] 11 = Some 500 \<and>
   bid_command None 2000 (Some [\<lparr>pr_id = Some 11, pr_balance = Some 500\<rparr>])
     [\<lparr>thread_id = 7, channel_id = 1, guild_id = 2, player_name = ''Ohtani'',
       current_bid = 100, current_bidder_id = Some 10, current_bidder_name = Some ''Z'',
       created_at = 1000, last_bid_at = 1000, status = Active\<rparr>,
      \<lparr>thread_id = 8, channel_id = 1, guild_id = 2, player_name = ''Judge'',
       current_bid = 50, current_bidder_id = Some 12, current_bidder_name = Some ''B'',
       created_at = 1500, last_bid_at = 1500, status = Active\<rparr>]
     \<lparr>ia_guild = Some 2, ia_channel = Some 7, ia_user = 11, ia_display_name = ''A''\<rparr> 500
   = (NewHighBid
        \<lparr>thread_id = 7, channel_id = 1, guild_id = 2, player_name = ''Ohtani'',
         current_bid = 500, current_bidder_id = Some 11, current_bidder_name = Some ''A'',
         created_at = 1000, last_bid_at = 2000, status = Active\<rparr>,
      [\<lparr>thread_id = 7, channel_id = 1, guild_id = 2, player_name = ''Ohtani'',
        current_bid = 500, current_bidder_id = Some 11, current_bidder_name = Some ''A'',
        created_at = 1000, last_bid_at = 2000, status = Active\<rparr>,
       \<lparr>thread_id = 8, channel_id = 1, guild_id = 2, player_name = ''Judge'',
        current_bid = 50, current_bidder_id = Some 12, current_bidder_name = Some ''B'',
        created_at = 1500, last_bid_at = 1500, status = Active\<rparr>]) \<and>
   get_committed_pom_for_user
     [\<lparr>thread_id = 7, channel_id = 1, guild_id = 2, player_name = ''Ohtani'',
       current_bid = 500, current_bidder_id = Some 11, current_bidder_name = Some ''A'',
       created_at = 1000, last_bid_at = 2000, status = Active\<rparr>,
      \<lparr>thread_id = 8, channel_id = 1, guild_id = 2, player_name = ''Judge'',
       current_bid = 50, current_bidder_id = Some 12, current_bidder_name = Some ''B'',
       created_at = 1500, last_bid_at = 1500, status = Active\<rparr>] 11 = 500 \<and>
   bid_command None 2100 (Some [\<lparr>pr_id = Some 11, pr_balance = Some 500\<rparr>])
     [\<lparr>thread_id = 7, channel_id = 1, guild_id = 2, player_name = ''Ohtani'',
       current_bid = 500, current_bidder_id = Some 11, current_bidder_name = Some ''A'',
       created_at = 1000, last_bid_at = 2000, status = Active\<rparr>,
      \<lparr>thread_id = 8, channel_id = 1, guild_id = 2, player_name = ''Judge'',
       current_bid = 50, current_bidder_id = Some 12, current_bidder_name = Some ''B'',
       created_at = 1500, last_bid_at = 1500, status = Active\<rparr>]
     \<lparr>ia_guild = Some 2, ia_channel = Some 8, ia_user = 11, ia_display_name = ''A''\<rparr> 100
   = (OverBudget 0 500 500,
      [\<lparr>thread_id = 7, channel_id = 1, guild_id = 2, player_name = ''Ohtani'',
        current_bid = 500, current_bidder_id = Some 11, current_bidder_name = Some ''A'',
        created_at = 1000, last_bid_at = 2000, status = Active\<rparr>,
       \<lparr>thread_id = 8, channel_id = 1, guild_id = 2, player_name = ''Judge'',
        current_bid = 50, current_bidder_id = Some 12, current_bidder_name = Some ''B'',
        created_at = 1500, last_bid_at = 1500, status = Active\<rparr>])"
  using bid_within_available_balance
    [where l = "[\<lparr>thread_id = 7, channel_id = 1, guild_id = 2, player_name = ''Ohtani'',
       current_bid = 100, current_bidder_id = Some 10, current_bidder_name = Some ''Z'',
       created_at = 1000, last_bid_at = 1000, status = Active\<rparr>,
      \<lparr>thread_id = 8, channel_id = 1, guild_id = 2, player_name = ''Judge'',
       current_bid = 50, current_bidder_id = Some 12, current_bidder_name = Some ''B'',
       created_at = 1500, last_bid_at = 1500, status = Active\<rparr>]"
     and acid = None and now = 2000
     and orc = "Some [\<lparr>pr_id = Some 11, pr_balance = Some 500\<rparr>]"
     and ia = "\<lparr>ia_guild = Some 2, ia_channel = Some 7, ia_user = 11, ia_display_name = ''A''\<rparr>"
     and amount = 500 and rows = "[\<lparr>pr_id = Some 11, pr_balance = Some 500\<rparr>]"
     and balance = 500]
   bid_within_available_balance
    [where l = "[\<lparr>thread_id = 7, channel_id = 1, guild_id = 2, player_name = ''Ohtani'',
       current_bid = 500, current_bidder_id = Some 11, current_bidder_name = Some ''A'',
       created_at = 1000, last_bid_at = 2000, status = Active\<rparr>,
      \<lparr>thread_id = 8, channel_id = 1, guild_id = 2, player_name = ''Judge'',
       current_bid = 50, current_bidder_id = Some 12, current_bidder_name = Some ''B'',
       created_at = 1500, last_bid_at = 1500, status = Active\<rparr>]"
     and acid = None and now = 2100
     and orc = "Some [\<lparr>pr_id = Some 11, pr_balance = Some 500\<rparr>]"
     and ia = "\<lparr>ia_guild = Some 2, ia_channel = Some 8, ia_user = 11, ia_display_name = ''A''\<rparr>"
     and amount = 100 and rows = "[\<lparr>pr_id = Some 11, pr_balance = Some 500\<rparr>]"
     and balance = 500]
  by (simp add: unique_threads_def bid_command_def get_auction_by_thread_def
      get_pom_balance_sync_def cell_balance_def get_committed_pom_for_user_def
      place_bid_def place_bid_update_def Let_def)

section \<open>No raising of one's own bid\<close>

text \<open>
  Claim C6. When the user of the command is the \<open>current_bidder_id\<close> of the
  auction of the thread, \<open>bid_command\<close> leaves the table unchanged whatever the
  amount, the sheet and the configuration are, and it answers with one of the
  rejections that precede the balance check; \<open>place_bid\<close> is never reached.
\<close>

theorem own_bid_rejected:
  assumes "ia_channel ia = Some tid" and "get_auction_by_thread l tid = Some a"
    and "current_bidder_id a = Some (ia_user ia)"
  shows "snd (bid_command acid now orc l ia amount) = l \<and>
         fst (bid_command acid now orc l ia amount)
           \<in> {NotInServer, AuctionCompleted, WrongChannel, BidTooLow, OwnBid}"
  using assms
  by (simp add: bid_command_def split: option.splits)

theorem own_bid_rejected_witness:
  "get_auction_by_thread
     [\<lparr>thread_id = 7, channel_id = 1, guild_id = 2, player_name = ''Ohtani'',
       current_bid = 500, current_bidder_id = Some 11, current_bidder_name = Some ''A'',
       created_at = 1000, last_bid_at = 2000, status = Active\<rparr>] 7
   = Some \<lparr>thread_id = 7, channel_id = 1, guild_id = 2, player_name = ''Ohtani'',
       current_bid = 500, current_bidder_id = Some 11, current_bidder_name = Some ''A'',
       created_at = 1000, last_bid_at = 2000, status = Active\<rparr> \<and>
   bid_command None 2100 (Some [\<lparr>pr_id = Some 11, pr_balance = Some 5000000\<rparr>])
     [\<lparr>thread_id = 7, channel_id = 1, guild_id = 2, player_name = ''Ohtani'',
       current_bid = 500, current_bidder_id = Some 11, current_bidder_name = Some ''A'',
       created_at = 1000, last_bid_at = 2000, status = Active\<rparr>]
     \<lparr>ia_guild = Some 2, ia_channel = Some 7, ia_user = 11, ia_display_name = ''A''\<rparr> 1000000
   = (OwnBid,
      [\<lparr>thread_id = 7, channel_id = 1, guild_id = 2, player_name = ''Ohtani'',
        current_bid = 500, current_bidder_id = Some 11, current_bidder_name = Some ''A'',
        created_at = 1000, last_bid_at = 2000, status = Active\<rparr>])"
  using own_bid_rejected
    [where ia = "\<lparr>ia_guild = Some 2, ia_channel = Some 7, ia_user = 11, ia_display_name = ''A''\<rparr>"
     and tid = 7
     and l = "[\<lparr>thread_id = 7, channel_id = 1, guild_id = 2, player_name = ''Ohtani'',
       current_bid = 500, current_bidder_id = Some 11, current_bidder_name = Some ''A'',
       created_at = 1000, last_bid_at = 2000, status = Active\<rparr>]"
     and a = "\<lparr>thread_id = 7, channel_id = 1, guild_id = 2, player_name = ''Ohtani'',
       current_bid = 500, current_bidder_id = Some 11, current_bidder_name = Some ''A'',
       created_at = 1000, last_bid_at = 2000, status = Active\<rparr>"
     and acid = None and now = 2100
     and orc = "Some [\<lparr>pr_id = Some 11, pr_balance = Some 5000000\<rparr>]"
     and amount = 1000000]
  by (simp add: bid_command_def get_auction_by_thread_def)

section \<open>Fault boundaries of the settlement\<close>

text \<open>
  Claim C1 fails as stated. Everything succeeds except \<open>append_completed_auction\<close>,
  which raises. The append and the deduction stand in one \<open>try\<close> block, so the
  exception leaves the block before \<open>deduct_pom\<close> is called: no deduction is
  attempted and the winner's balance stays 500. The auction is completed and the
  pinned list is still refreshed.
\<close>

theorem history_append_failure_skips_debit:
  "complete_one
     \<lparr>ce_clock = 90000, ce_thread_cached = Some ThreadChan, ce_thread_fetch = RaisesHTTP,
      ce_thread_send = Returns (), ce_thread_edit = Returns (),
      ce_channel_cached = Some OtherChan, ce_channel_fetch = RaisesHTTP,
      ce_channel_send = Returns (), ce_append = RaisesOther, ce_deduct = Returns (),
      ce_warn_send = Returns (), ce_pinned = Returns ()\<rparr>
     \<lparr>thread_id = 7, channel_id = 1, guild_id = 2, player_name = ''Ohtani'',
      current_bid = 100, current_bidder_id = Some 11, current_bidder_name = Some ''A'',
      created_at = 1000, last_bid_at = 1000, status = Active\<rparr>
     ([\<lparr>thread_id = 7, channel_id = 1, guild_id = 2, player_name = ''Ohtani'',
        current_bid = 100, current_bidder_id = Some 11, current_bidder_name = Some ''A'',
        created_at = 1000, last_bid_at = 1000, status = Active\<rparr>],
      [\<lparr>pr_id = Some 11, pr_balance = Some 500\<rparr>])
   = ([ThreadSend, ThreadEdit, ChannelSend, AppendHistory, PinnedUpdate],
      ([\<lparr>thread_id = 7, channel_id = 1, guild_id = 2, player_name = ''Ohtani'',
         current_bid = 100, current_bidder_id = Some 11, current_bidder_name = Some ''A'',
         created_at = 1000, last_bid_at = 1000, status = Completed\<rparr>],
       [\<lparr>pr_id = Some 11, pr_balance = Some 500\<rparr>]),
      False)"
  by (simp add: complete_one_def seconds_until_expiry_def BID_EXPIRY_HOURS_def
      complete_auction_def complete_update_def Let_def settle_def resolve_channel_def
      settle_sheets_def)

text \<open>
  Claim C1 as amended. When the sweep completes an expired active auction, the row is
  completed whatever the settlement steps do afterwards. The deduction is attempted
  exactly when the thread and the parent channel are found, none of the thread
  announcement, the thread lock and the channel announcement raises anything but a
  chat-platform HTTP error (each of the three catches that error itself, so such a
  failure does not stop the deduction), the history append returns, and the winner's
  id is set: the append and the deduction share one fault boundary. The refresh of
  the pinned list is attempted whenever the settlement gets as far as that boundary,
  whatever happens inside it.
\<close>

theorem settlement_fault_boundaries:
  assumes "get_auction_by_thread l (thread_id a) = Some a" and "status a = Active"
    and "seconds_until_expiry (ce_clock env) (last_bid_at a) \<le> 0"
  shows "\<exists>calls rows' escaped.
           complete_one env a (l, rows) =
             (calls, (complete_update l (thread_id a), rows'), escaped) \<and>
           get_auction_by_thread (complete_update l (thread_id a)) (thread_id a) =
             Some (a\<lparr>status := Completed\<rparr>) \<and>
           ((\<exists>uid amt. DeductPom uid amt \<in> set calls) \<longleftrightarrow>
              reaches_sheets env \<and> ce_append env = Returns () \<and>
              (\<exists>uid. current_bidder_id a = Some uid \<and> uid \<noteq> 0)) \<and>
           (PinnedUpdate \<in> set calls \<longleftrightarrow> reaches_sheets env)"
proof -
  have row: "get_auction_by_thread (complete_update l (thread_id a)) (thread_id a) =
             Some (a\<lparr>status := Completed\<rparr>)"
    using assms(1,2) by (simp add: get_auction_by_thread_complete_update)
  then have ca: "complete_auction l (thread_id a) =
      (Some (a\<lparr>status := Completed\<rparr>), complete_update l (thread_id a))"
    by (simp add: complete_auction_def Let_def get_auction_by_thread_def)
  obtain calls rows' escaped where s: "settle env a rows = (calls, rows', escaped)"
    by (cases "settle env a rows") auto
  have one: "complete_one env a (l, rows) =
             (calls, (complete_update l (thread_id a), rows'), escaped)"
    using assms(3) ca s by (simp add: complete_one_def)
  from s settle_deduct_iff [of env a rows]
  have d: "(\<exists>uid amt. DeductPom uid amt \<in> set calls) \<longleftrightarrow>
              reaches_sheets env \<and> ce_append env = Returns () \<and>
              (\<exists>uid. current_bidder_id a = Some uid \<and> uid \<noteq> 0)"
    by simp
  from s settle_pinned_iff [of env a rows]
  have p: "PinnedUpdate \<in> set calls \<longleftrightarrow> reaches_sheets env"
    by simp
  from one row d p show ?thesis by blast
qed

theorem settlement_fault_boundaries_witness:
  "get_auction_by_thread
     [\<lparr>thread_id = 7, channel_id = 1, guild_id = 2, player_name = ''Ohtani'',
       current_bid = 100, current_bidder_id = Some 11, current_bidder_name = Some ''A'',
       created_at = 1000, last_bid_at = 1000, status = Active\<rparr>] 7
   = Some \<lparr>thread_id = 7, channel_id = 1, guild_id = 2, player_name = ''Ohtani'',
       current_bid = 100, current_bidder_id = Some 11, current_bidder_name = Some ''A'',
       created_at = 1000, last_bid_at = 1000, status = Active\<rparr> \<and>
   seconds_until_expiry 90000 1000 \<le> 0 \<and>
   complete_one
     \<lparr>ce_clock = 90000, ce_thread_cached = None, ce_thread_fetch = Returns ThreadChan,
      ce_thread_send = RaisesHTTP, ce_thread_edit = RaisesHTTP,
      ce_channel_cached = Some OtherChan, ce_channel_fetch = RaisesHTTP,
      ce_channel_send = RaisesHTTP, ce_append = Returns (), ce_deduct = Returns (),
      ce_warn_send = Returns (), ce_pinned = RaisesOther\<rparr>
     \<lparr>thread_id = 7, channel_id = 1, guild_id = 2, player_name = ''Ohtani'',
      current_bid = 100, current_bidder_id = Some 11, current_bidder_name = Some ''A'',
      created_at = 1000, last_bid_at = 1000, status = Active\<rparr>
     ([\<lparr>thread_id = 7, channel_id = 1, guild_id = 2, player_name = ''Ohtani'',
        current_bid = 100, current_bidder_id = Some 11, current_bidder_name = Some ''A'',
        created_at = 1000, last_bid_at = 1000, status = Active\<rparr>],
      [\<lparr>pr_id = Some 11, pr_balance = Some 500\<rparr>])
   = ([ThreadSend, ThreadEdit, ChannelSend, AppendHistory, DeductPom 11 100, PinnedUpdate],
      ([\<lparr>thread_id = 7, channel_id = 1, guild_id = 2, player_name = ''Ohtani'',
         current_bid = 100, current_bidder_id = Some 11, current_bidder_name = Some ''A'',
         created_at = 1000, last_bid_at = 1000, status = Completed\<rparr>],
       [\<lparr>pr_id = Some 11, pr_balance = Some 400\<rparr>]),
      False)"
  using settlement_fault_boundaries
    [where l = "[\<lparr>thread_id = 7, channel_id = 1, guild_id = 2, player_name = ''Ohtani'',
       current_bid = 100, current_bidder_id = Some 11, current_bidder_name = Some ''A'',
       created_at = 1000, last_bid_at = 1000, status = Active\<rparr>]"
     and a = "\<lparr>thread_id = 7, channel_id = 1, guild_id = 2, player_name = ''Ohtani'',
       current_bid = 100, current_bidder_id = Some 11, current_bidder_name = Some ''A'',
       created_at = 1000, last_bid_at = 1000, status = Active\<rparr>"
     and env = "\<lparr>ce_clock = 90000, ce_thread_cached = None, ce_thread_fetch = Returns ThreadChan,
      ce_thread_send = RaisesHTTP, ce_thread_edit = RaisesHTTP,
      ce_channel_cached = Some OtherChan, ce_channel_fetch = RaisesHTTP,
      ce_channel_send = RaisesHTTP, ce_append = Returns (), ce_deduct = Returns (),
      ce_warn_send = Returns (), ce_pinned = RaisesOther\<rparr>"
     and rows = "[\<lparr>pr_id = Some 11, pr_balance = Some 500\<rparr>]"]
  by (simp add: complete_one_def seconds_until_expiry_def BID_EXPIRY_HOURS_def
      complete_auction_def complete_update_def Let_def settle_def resolve_channel_def
      settle_sheets_def get_auction_by_thread_def cell_balance_def)

section \<open>One reminder per threshold and bid-epoch\<close>

text \<open>
  Claim C8 fails as stated. Two sweeps in a row observe 5.83 and 5.75 hours left,
  both inside the window of the 6-hour threshold; the thread is found, but
  \<open>thread.send\<close> raises \<open>discord.HTTPException\<close> both times. No reminder is sent
  for the triple, not exactly one.
\<close>

theorem reminder_not_sent_when_sends_fail:
  "in_window 6 (hours_left_at
      \<lparr>re_clock = 66400, re_thread_cached = Some ThreadChan,
      re_thread_fetch = RaisesHTTP, re_send = (\<lambda>h. RaisesHTTP)\<rparr>
      \<lparr>thread_id = 7, channel_id = 1, guild_id = 2, player_name = ''Ohtani'',
      current_bid = 100, current_bidder_id = Some 11, current_bidder_name = Some ''A'',
      created_at = 1000, last_bid_at = 1000, status = Active\<rparr>) \<and>
   in_window 6 (hours_left_at
      \<lparr>re_clock = 66700, re_thread_cached = Some ThreadChan,
      re_thread_fetch = RaisesHTTP, re_send = (\<lambda>h. RaisesHTTP)\<rparr>
      \<lparr>thread_id = 7, channel_id = 1, guild_id = 2, player_name = ''Ohtani'',
      current_bid = 100, current_bidder_id = Some 11, current_bidder_name = Some ''A'',
      created_at = 1000, last_bid_at = 1000, status = Active\<rparr>) \<and>
   fst (reminder_run
     [(\<lparr>re_clock = 66400, re_thread_cached = Some ThreadChan,
      re_thread_fetch = RaisesHTTP, re_send = (\<lambda>h. RaisesHTTP)\<rparr>,
      \<lparr>thread_id = 7, channel_id = 1, guild_id = 2, player_name = ''Ohtani'',
      current_bid = 100, current_bidder_id = Some 11, current_bidder_name = Some ''A'',
      created_at = 1000, last_bid_at = 1000, status = Active\<rparr>),
     (\<lparr>re_clock = 66700, re_thread_cached = Some ThreadChan,
      re_thread_fetch = RaisesHTTP, re_send = (\<lambda>h. RaisesHTTP)\<rparr>,
      \<lparr>thread_id = 7, channel_id = 1, guild_id = 2, player_name = ''Ohtani'',
      current_bid = 100, current_bidder_id = Some 11, current_bidder_name = Some ''A'',
      created_at = 1000, last_bid_at = 1000, status = Active\<rparr>)]
     Map.empty)
   = [((7, 1000), ReminderFailed 6), ((7, 1000), ReminderFailed 6)]"
  by (simp add: REMINDER_THRESHOLDS_def remind_one_def Let_def seconds_until_expiry_def
      BID_EXPIRY_HOURS_def resolve_channel_def sent_for_def in_window_def hours_left_at_def
      thread_found_def)

text \<open>
  Claim C8 as amended. Take any run of the reminder loop within one process: any
  rows, in any order, over any number of sweeps, from any state of the markers. For
  a bid-epoch \<open>k = (thread_id, last_bid_at)\<close> and a threshold \<open>h\<close> of 6 or 1
  hours, the number of reminders sent for \<open>(k, h)\<close> is one if \<open>h\<close> was not yet
  marked for \<open>k\<close> and some observation of a row of that epoch delivers (the thread
  is found, the hours left are inside \<open>(h - 0.5, h]\<close>, and the send returns), and
  zero otherwise: never more than one, however many sweeps land inside the window
  (the last line says so for the \<open>while\<close> loop itself, whose sweeps are such a run).
  An observation outside the window sends no reminder for \<open>h\<close>. An accepted bid
  sets \<open>last_bid_at\<close> to the time of the bid, and no threshold is marked for the
  epoch that starts then by any sweeps that ran up to that time: all thresholds are
  open again.
\<close>

theorem reminder_once_per_epoch:
  assumes "h \<in> set REMINDER_THRESHOLDS"
  shows "count_list (fst (reminder_run obs m)) (k, ReminderSent h) =
           (if h \<notin> sent_for m k \<and>
               (\<exists>(env, a) \<in> set obs. (thread_id a, last_bid_at a) = k \<and> delivers env a h)
            then 1 else 0) \<and>
         (\<not> in_window h (hours_left_at env_out a_out) \<longrightarrow>
            ReminderSent h \<notin> set (fst (remind_one env_out a_out m_out))) \<and>
         (get_auction_by_thread l tid = Some a_bid \<and> status a_bid = Active \<and> current_bid a_bid < amount \<and>
          (\<forall>(env, b) \<in> set obs_before. re_clock env \<le> now) \<longrightarrow>
            (\<exists>a'. place_bid l now tid amount bidder bidder_name =
                     (Some a', place_bid_update l tid amount bidder bidder_name now) \<and>
                  thread_id a' = tid \<and> last_bid_at a' = now \<and>
                  sent_for (snd (reminder_run obs_before Map.empty)) (thread_id a', last_bid_at a') = {})) \<and>
         count_list (fst (reminder_sweeps sweeps m_start)) (k, ReminderSent h) \<le> 1"
proof (intro conjI impI)
  from assms have h: "h = 6 \<or> h = 1"
    by (simp add: REMINDER_THRESHOLDS_def)
  from reminder_sweeps_is_run [of sweeps m_start] obtain obs' where
    "reminder_sweeps sweeps m_start = reminder_run obs' m_start"
    by blast
  then show "count_list (fst (reminder_sweeps sweeps m_start)) (k, ReminderSent h) \<le> 1"
    using reminder_run_count [OF h, of obs' m_start k] by simp
  from h show "count_list (fst (reminder_run obs m)) (k, ReminderSent h) =
           (if h \<notin> sent_for m k \<and>
               (\<exists>(env, a) \<in> set obs. (thread_id a, last_bid_at a) = k \<and> delivers env a h)
            then 1 else 0)"
    by (rule reminder_run_count)
  assume "\<not> in_window h (hours_left_at env_out a_out)"
  with h show "ReminderSent h \<notin> set (fst (remind_one env_out a_out m_out))"
    using remind_one_outside_window [of h env_out a_out m_out] by simp
next
  assume b: "get_auction_by_thread l tid = Some a_bid \<and> status a_bid = Active \<and> current_bid a_bid < amount \<and>
          (\<forall>(env, b) \<in> set obs_before. re_clock env \<le> now)"
  then have "get_auction_by_thread l tid = Some a_bid" by simp
  then have tid: "thread_id a_bid = tid"
    by (simp add: get_auction_by_thread_SomeD)
  from b have "place_bid l now tid amount bidder bidder_name =
           (Some (a_bid\<lparr>current_bid := amount, current_bidder_id := Some bidder,
                    current_bidder_name := Some bidder_name, last_bid_at := now\<rparr>),
            place_bid_update l tid amount bidder bidder_name now)"
    by (simp add: place_bid_accepted)
  moreover from b have "sent_for (snd (reminder_run obs_before Map.empty)) (tid, now) = {}"
    by (intro new_epoch_unmarked) simp
  ultimately
  show "\<exists>a'. place_bid l now tid amount bidder bidder_name =
                     (Some a', place_bid_update l tid amount bidder bidder_name now) \<and>
                  thread_id a' = tid \<and> last_bid_at a' = now \<and>
                  sent_for (snd (reminder_run obs_before Map.empty)) (thread_id a', last_bid_at a') = {}"
    using tid by simp
qed

theorem reminder_once_per_epoch_witness:
  "6 \<in> set REMINDER_THRESHOLDS \<and>
   fst (reminder_run
     [(\<lparr>re_clock = 66400, re_thread_cached = Some ThreadChan,
      re_thread_fetch = RaisesHTTP, re_send = (\<lambda>h. Returns ())\<rparr>,
      \<lparr>thread_id = 7, channel_id = 1, guild_id = 2, player_name = ''Ohtani'',
      current_bid = 100, current_bidder_id = Some 11, current_bidder_name = Some ''A'',
      created_at = 1000, last_bid_at = 1000, status = Active\<rparr>),
     (\<lparr>re_clock = 66700, re_thread_cached = Some ThreadChan,
      re_thread_fetch = RaisesHTTP, re_send = (\<lambda>h. Returns ())\<rparr>,
      \<lparr>thread_id = 7, channel_id = 1, guild_id = 2, player_name = ''Ohtani'',
      current_bid = 100, current_bidder_id = Some 11, current_bidder_name = Some ''A'',
      created_at = 1000, last_bid_at = 1000, status = Active\<rparr>)]
     Map.empty)
   = [((7, 1000), ReminderSent 6)] \<and>
   \<not> in_window 6 (hours_left_at
      \<lparr>re_clock = 68000, re_thread_cached = Some ThreadChan,
      re_thread_fetch = RaisesHTTP, re_send = (\<lambda>h. Returns ())\<rparr>
      \<lparr>thread_id = 7, channel_id = 1, guild_id = 2, player_name = ''Ohtani'',
      current_bid = 100, current_bidder_id = Some 11, current_bidder_name = Some ''A'',
      created_at = 1000, last_bid_at = 1000, status = Active\<rparr>) \<and>
   fst (remind_one
      \<lparr>re_clock = 68000, re_thread_cached = Some ThreadChan,
      re_thread_fetch = RaisesHTTP, re_send = (\<lambda>h. Returns ())\<rparr>
      \<lparr>thread_id = 7, channel_id = 1, guild_id = 2, player_name = ''Ohtani'',
      current_bid = 100, current_bidder_id = Some 11, current_bidder_name = Some ''A'',
      created_at = 1000, last_bid_at = 1000, status = Active\<rparr> Map.empty) = [] \<and>
   place_bid
     [\<lparr>thread_id = 7, channel_id = 1, guild_id = 2, player_name = ''Ohtani'',
      current_bid = 100, current_bidder_id = Some 11, current_bidder_name = Some ''A'',
      created_at = 1000, last_bid_at = 1000, status = Active\<rparr>] 66800 7 150 12 ''B''
   = (Some \<lparr>thread_id = 7, channel_id = 1, guild_id = 2, player_name = ''Ohtani'',
      current_bid = 150, current_bidder_id = Some 12, current_bidder_name = Some ''B'',
      created_at = 1000, last_bid_at = 66800, status = Active\<rparr>,
      [\<lparr>thread_id = 7, channel_id = 1, guild_id = 2, player_name = ''Ohtani'',
      current_bid = 150, current_bidder_id = Some 12, current_bidder_name = Some ''B'',
      created_at = 1000, last_bid_at = 66800, status = Active\<rparr>]) \<and>
   sent_for (snd (reminder_run
     [(\<lparr>re_clock = 66400, re_thread_cached = Some ThreadChan,
      re_thread_fetch = RaisesHTTP, re_send = (\<lambda>h. Returns ())\<rparr>,
      \<lparr>thread_id = 7, channel_id = 1, guild_id = 2, player_name = ''Ohtani'',
      current_bid = 100, current_bidder_id = Some 11, current_bidder_name = Some ''A'',
      created_at = 1000, last_bid_at = 1000, status = Active\<rparr>),
     (\<lparr>re_clock = 66700, re_thread_cached = Some ThreadChan,
      re_thread_fetch = RaisesHTTP, re_send = (\<lambda>h. Returns ())\<rparr>,
      \<lparr>thread_id = 7, channel_id = 1, guild_id = 2, player_name = ''Ohtani'',
      current_bid = 100, current_bidder_id = Some 11, current_bidder_name = Some ''A'',
      created_at = 1000, last_bid_at = 1000, status = Active\<rparr>)]
     Map.empty)) (7, 66800) = {}"
  using reminder_once_per_epoch
    [where h = 6 and m = Map.empty and k = "(7, 1000)"
     and obs = "[(\<lparr>re_clock = 66400, re_thread_cached = Some ThreadChan,
      re_thread_fetch = RaisesHTTP, re_send = (\<lambda>h. Returns ())\<rparr>,
      \<lparr>thread_id = 7, channel_id = 1, guild_id = 2, player_name = ''Ohtani'',
      current_bid = 100, current_bidder_id = Some 11, current_bidder_name = Some ''A'',
      created_at = 1000, last_bid_at = 1000, status = Active\<rparr>),
     (\<lparr>re_clock = 66700, re_thread_cached = Some ThreadChan,
      re_thread_fetch = RaisesHTTP, re_send = (\<lambda>h. Returns ())\<rparr>,
      \<lparr>thread_id = 7, channel_id = 1, guild_id = 2, player_name = ''Ohtani'',
      current_bid = 100, current_bidder_id = Some 11, current_bidder_name = Some ''A'',
      created_at = 1000, last_bid_at = 1000, status = Active\<rparr>)]"
     and env_out = "\<lparr>re_clock = 68000, re_thread_cached = Some ThreadChan,
      re_thread_fetch = RaisesHTTP, re_send = (\<lambda>h. Returns ())\<rparr>"
     and a_out = "\<lparr>thread_id = 7, channel_id = 1, guild_id = 2, player_name = ''Ohtani'',
      current_bid = 100, current_bidder_id = Some 11, current_bidder_name = Some ''A'',
      created_at = 1000, last_bid_at = 1000, status = Active\<rparr>"
     and m_out = Map.empty
     and l = "[\<lparr>thread_id = 7, channel_id = 1, guild_id = 2, player_name = ''Ohtani'',
      current_bid = 100, current_bidder_id = Some 11, current_bidder_name = Some ''A'',
      created_at = 1000, last_bid_at = 1000, status = Active\<rparr>]"
     and tid = 7
     and a_bid = "\<lparr>thread_id = 7, channel_id = 1, guild_id = 2, player_name = ''Ohtani'',
      current_bid = 100, current_bidder_id = Some 11, current_bidder_name = Some ''A'',
      created_at = 1000, last_bid_at = 1000, status = Active\<rparr>"
     and amount = 150 and now = 66800 and bidder = 12 and bidder_name = "''B''"
     and obs_before = "[(\<lparr>re_clock = 66400, re_thread_cached = Some ThreadChan,
      re_thread_fetch = RaisesHTTP, re_send = (\<lambda>h. Returns ())\<rparr>,
      \<lparr>thread_id = 7, channel_id = 1, guild_id = 2, player_name = ''Ohtani'',
      current_bid = 100, current_bidder_id = Some 11, current_bidder_name = Some ''A'',
      created_at = 1000, last_bid_at = 1000, status = Active\<rparr>),
     (\<lparr>re_clock = 66700, re_thread_cached = Some ThreadChan,
      re_thread_fetch = RaisesHTTP, re_send = (\<lambda>h. Returns ())\<rparr>,
      \<lparr>thread_id = 7, channel_id = 1, guild_id = 2, player_name = ''Ohtani'',
      current_bid = 100, current_bidder_id = Some 11, current_bidder_name = Some ''A'',
      created_at = 1000, last_bid_at = 1000, status = Active\<rparr>)]"]
  by (simp add: REMINDER_THRESHOLDS_def remind_one_def Let_def seconds_until_expiry_def
      BID_EXPIRY_HOURS_def resolve_channel_def sent_for_def in_window_def hours_left_at_def
      thread_found_def
      place_bid_def place_bid_update_def get_auction_by_thread_def)

section \<open>The marker follows the delivery\<close>




end
